theory Spec2Isabelle
  imports Main
begin

section \<open>Data model of the standalone driver (cycles_standalone.cpp)\<close>

text \<open>
  The driver is a thin layer over the render session. The classes it uses (Device,
  DeviceInfo, SceneParams, SessionParams, BufferParams, Scene, Camera, Session, Progress)
  are declared in headers that are not part of the sources at hand; each record below
  holds the fields the driver reads or writes. C \<open>int\<close> values are modelled as
  \<open>int\<close>: the driver only copies, compares and prints them, so the 32-bit range plays no
  role. A \<open>std::string\<close> is a list of characters without the NUL character, so that
  \<open>c_str()\<close> printed with \<open>%s\<close> is the string itself. Fields keep their names in the
  source; where two classes have a field of the same name a prefix tells them apart
  (\<open>opt_width\<close> of \<open>Options\<close>, \<open>bp_width\<close> of \<open>BufferParams\<close>, \<open>cam_width\<close> of
  \<open>Camera\<close>, \<open>opt_scene\<close> of \<open>Options\<close>, \<open>sess_scene\<close> of \<open>Session\<close>).
\<close>

text \<open>The driver names \<open>DEVICE_NONE\<close> and \<open>DEVICE_CPU\<close>; every other device type of
  device.h is \<open>DEVICE_OTHER n\<close>.\<close>

datatype DeviceType = DEVICE_NONE | DEVICE_CPU | DEVICE_OTHER nat

record DeviceInfo =
  dev_type :: DeviceType
  description :: string
  display_device :: bool

datatype ShadingSystem = OSL | SVM

record SceneParams =
  shadingsystem :: ShadingSystem

record SessionParams =
  device :: DeviceInfo
  background :: bool
  progressive :: bool
  samples :: int
  output_path :: string
  threads :: int

record BufferParams =
  bp_width :: int
  bp_height :: int
  full_width :: int
  full_height :: int

record Camera =
  cam_width :: int
  cam_height :: int

record Scene =
  scene_ctor_params :: SceneParams
  scene_ctor_device :: DeviceInfo
  camera :: Camera

text \<open>The two functions the driver registers as update callback.\<close>

datatype callback = session_print_status_cb | view_redraw_cb

text \<open>Progress State. The time values are IEEE doubles in the source; the driver code
  modelled here never computes with them, so their type is a parameter.\<close>

record 't Progress =
  sample :: int
  tile :: int
  total_time :: 't
  sample_time :: 't
  status :: string
  substatus :: string
  cancel :: bool
  cancel_message :: string
  update_cb :: "callback option"

datatype session_state = Uninitialized | Configured | Running | Paused | Cancelled | Completed

record 't Session =
  sess_params :: SessionParams
  sess_scene :: "nat option"
  progress :: "'t Progress"
  sess_state :: session_state
  sess_buffer_params :: "BufferParams option"
  sess_samples :: int

text \<open>\<open>struct Options\<close>. Pointers are options: \<open>None\<close> is \<open>NULL\<close>. The session is
  reached only through \<open>options.session\<close> and is held by value; a scene is shared
  between \<open>options.scene\<close> and \<open>session->scene\<close>, so scenes live in a store and both
  fields hold an address.\<close>

record 't Options =
  opt_session :: "'t Session option"
  opt_scene :: "nat option"
  filepath :: string
  opt_width :: int
  opt_height :: int
  scene_params :: SceneParams
  session_params :: SessionParams
  quiet :: bool
  show_help :: bool

datatype exit_code = EXIT_SUCCESS | EXIT_FAILURE

text \<open>What the driver does to the outside world, in the order in which it happens: the
  calls of the main thread in program order, and between them the output of the update
  callback when the render thread runs it. \<open>SessionWait\<close> is the call of \<open>wait()\<close> and
  \<open>SessionWaitReturn\<close> its return.\<close>

datatype event =
    Stdout string
  | Stderr string
  | Flush
  | Usage string
  | PathInit
  | SceneNew nat SceneParams DeviceInfo
  | XmlReadFile nat string
  | SceneDelete nat
  | SessionNew SessionParams
  | SessionReset BufferParams int
  | SessionSetScene "nat option"
  | SetUpdateCallback callback
  | SessionStart
  | SessionWait
  | SessionWaitReturn
  | SessionDraw BufferParams
  | SetCancel string
  | SessionDelete
  | ViewDisplayInfo
  | ViewDisplayHelp
  | ViewRedraw
  | ViewMainLoop string int int

text \<open>The whole state of the driver: the global \<open>options\<close>, the two function-local
  statics (\<open>maxlen\<close> of \<open>session_print\<close>, \<open>buffer_params\<close> of
  \<open>session_buffer_params\<close>), the store of scenes with its allocation counter, and the
  trace of events so far.\<close>

record 't driver =
  options :: "'t Options"
  maxlen :: int
  buffer_params :: BufferParams
  heap :: "nat \<Rightarrow> Scene option"
  next_free :: nat
  trace :: "event list"

text \<open>A run either goes on with a new state, or stops: \<open>exit\<close> was called, a null
  pointer was dereferenced, or \<open>wait()\<close> does not return. The state at the stop is
  kept.\<close>

datatype stop = Exit exit_code | NullPointer | Blocked

type_synonym 't result = "(stop \<times> 't driver) + 't driver"

definition and_then :: "'t result \<Rightarrow> ('t driver \<Rightarrow> 't result) \<Rightarrow> 't result" where
  "and_then r f = (case r of Inl e \<Rightarrow> Inl e | Inr d \<Rightarrow> f d)"

definition final_state :: "'t result \<Rightarrow> 't driver" where
  "final_state r = (case r of Inl (e, d) \<Rightarrow> d | Inr d \<Rightarrow> d)"

definition stopped :: "'t result \<Rightarrow> stop option" where
  "stopped r = (case r of Inl (e, d) \<Rightarrow> Some e | Inr d \<Rightarrow> None)"

definition emit :: "event list \<Rightarrow> 't driver \<Rightarrow> 't driver" where
  "emit es d = d\<lparr>trace := trace d @ es\<rparr>"

definition upd_options :: "('t Options \<Rightarrow> 't Options) \<Rightarrow> 't driver \<Rightarrow> 't driver" where
  "upd_options f d = d\<lparr>options := f (options d)\<rparr>"

text \<open>What the render thread of a running session reports: new values of the Progress
  State. After each report it runs the update callback.\<close>

record 't progress_update =
  new_sample :: int
  new_tile :: int
  new_total_time :: 't
  new_sample_time :: 't
  new_status :: string
  new_substatus :: string

text \<open>What happens while \<open>view_main_loop\<close> (util_view, not part of the sources) runs:
  it issues one of the five gui callbacks of the driver, or the render thread reports
  progress in between.\<close>

datatype 't gui_call =
    CallInit
  | CallExit
  | CallResize int int
  | CallDisplay
  | CallKeyboard nat
  | Report "'t progress_update"

text \<open>What the driver takes from its surroundings: the two build flags, the Device
  registry, the constructors of \<open>Scene\<close> and \<open>Session\<close>, the XML loader,
  \<open>path_filename\<close>, the sequence of callbacks and reports while the gui main loop runs,
  and the course of the render in background mode: the reports of the render thread
  between \<open>start()\<close> and the next statement of the driver, its reports while the driver
  is in \<open>wait()\<close>, and whether \<open>wait()\<close> returns (a render without a sample limit that
  nobody cancels never ends).\<close>

record 't env =
  WITH_OSL :: bool
  WITH_CYCLES_STANDALONE_GUI :: bool
  available_types :: "DeviceType list"
  available_devices :: "DeviceInfo list"
  type_from_string :: "string \<Rightarrow> DeviceType"
  string_from_type :: "DeviceType \<Rightarrow> string"
  Scene_ctor :: "SceneParams \<Rightarrow> DeviceInfo \<Rightarrow> Scene"
  Session_ctor :: "SessionParams \<Rightarrow> 't Session"
  xml_read_file :: "string \<Rightarrow> Scene \<Rightarrow> Scene"
  path_filename :: "string \<Rightarrow> string"
  view_calls :: "'t gui_call list"
  start_updates :: "'t progress_update list"
  wait_updates :: "'t progress_update list"
  wait_returns :: bool

text \<open>What \<open>ArgParse\<close> (an external library) makes of \<open>argc\<close>/\<open>argv\<close>: the value
  \<open>ap.parse\<close> returns, its error text, the calls it makes to \<open>files_parse\<close> (each
  with the \<open>argv\<close> it passes), and for every option whether it was given and with which
  value.\<close>

record cmdline =
  cl_parse :: int
  cl_error :: string
  cl_files :: "string list list"
  cl_device :: "string option"
  cl_shadingsys :: "string option"
  cl_background :: bool
  cl_quiet :: bool
  cl_samples :: "int option"
  cl_output :: "string option"
  cl_threads :: "int option"
  cl_width :: "int option"
  cl_height :: "int option"
  cl_list :: bool
  cl_help :: bool

section \<open>Printing\<close>

text \<open>\<open>%d\<close> of \<open>printf\<close>: the decimal digits, with a minus sign for a negative number.\<close>

definition digit_char :: "nat \<Rightarrow> char" where
  "digit_char n = ''0123456789'' ! n"

function decimal :: "nat \<Rightarrow> string" where
  "decimal n = (if 10 \<le> n then decimal (n div 10) @ [digit_char (n mod 10)] else [digit_char n])"
  by pat_completeness auto
termination
  by (relation "measure id") auto

definition string_of_int :: "int \<Rightarrow> string" where
  "string_of_int i = (if i < 0 then CHR ''-'' # decimal (nat (- i)) else decimal (nat i))"

section \<open>Scene loading\<close>

definition new_Scene :: "'t env \<Rightarrow> SceneParams \<Rightarrow> DeviceInfo \<Rightarrow> 't driver \<Rightarrow> nat \<times> 't driver" where
  "new_Scene E sp dv d =
     (let p = next_free d
      in (p, emit [SceneNew p sp dv]
               (d\<lparr>heap := (heap d)(p := Some (Scene_ctor E sp dv)), next_free := Suc p\<rparr>)))"

definition xml_read :: "'t env \<Rightarrow> nat \<Rightarrow> string \<Rightarrow> 't driver \<Rightarrow> 't driver" where
  "xml_read E p path d =
     emit [XmlReadFile p path]
       (case heap d p of
          None \<Rightarrow> d
        | Some sc \<Rightarrow> d\<lparr>heap := (heap d)(p := Some (xml_read_file E path sc))\<rparr>)"

definition scene_init :: "'t env \<Rightarrow> int \<Rightarrow> int \<Rightarrow> 't driver \<Rightarrow> 't driver" where
  "scene_init E width height d0 =
     (let (p, d1) = new_Scene E (scene_params (options d0)) (device (session_params (options d0))) d0;
          d2 = upd_options (\<lambda>opts. opts\<lparr>opt_scene := Some p\<rparr>) d1;
          d3 = xml_read E p (filepath (options d2)) d2
      in if width = 0 \<or> height = 0
         then (case heap d3 p of
                 None \<Rightarrow> d3
               | Some sc \<Rightarrow>
                   upd_options (\<lambda>opts. opts\<lparr>opt_width := cam_width (camera sc),
                                              opt_height := cam_height (camera sc)\<rparr>) d3)
         else d3)"

section \<open>Command line\<close>

definition files_parse :: "string list \<Rightarrow> 't Options \<Rightarrow> 't Options" where
  "files_parse argv opts = (case argv of [] \<Rightarrow> opts | a # _ \<Rightarrow> opts\<lparr>filepath := a\<rparr>)"

fun device_names_loop :: "(DeviceType \<Rightarrow> string) \<Rightarrow> DeviceType list \<Rightarrow> string \<Rightarrow> string" where
  "device_names_loop sft [] device_names = device_names"
| "device_names_loop sft (ty # types) device_names =
     device_names_loop sft types
       ((if device_names \<noteq> [] then device_names @ '', '' else device_names) @ sft ty)"

definition set_opt :: "'a option \<Rightarrow> 'a \<Rightarrow> 'a" where
  "set_opt given old = (case given of None \<Rightarrow> old | Some v \<Rightarrow> v)"

text \<open>The effect of \<open>ap.parse\<close> on the variables bound in \<open>ap.options\<close>: a flag that is
  given becomes true, an option that is given overwrites its variable, the rest is left
  as it was. \<open>--shadingsys\<close> is an option of the OSL build only.\<close>

definition ap_parse :: "cmdline \<Rightarrow> 't Options \<Rightarrow> 't Options" where
  "ap_parse cl opts0 =
     (let opts1 = fold files_parse (cl_files cl) opts0;
          sp = session_params opts1
      in opts1\<lparr>session_params := sp\<lparr>background := (cl_background cl \<or> background sp),
                                      samples := set_opt (cl_samples cl) (samples sp),
                                      output_path := set_opt (cl_output cl) (output_path sp),
                                      threads := set_opt (cl_threads cl) (threads sp)\<rparr>,
               quiet := (cl_quiet cl \<or> quiet opts1),
               opt_width := set_opt (cl_width cl) (opt_width opts1),
               opt_height := set_opt (cl_height cl) (opt_height opts1)\<rparr>)"

definition devicename_of :: "cmdline \<Rightarrow> string" where
  "devicename_of cl = set_opt (cl_device cl) ''cpu''"

definition ssname_of :: "'t env \<Rightarrow> cmdline \<Rightarrow> string" where
  "ssname_of E cl = (if WITH_OSL E then set_opt (cl_shadingsys cl) ''svm'' else ''svm'')"

text \<open>\<open>ap.usage()\<close>. Of the usage text the event keeps the part that the driver builds: the
  help line of \<open>--device\<close>.\<close>

definition usage :: "'t env \<Rightarrow> event" where
  "usage E = Usage (''Devices to use: '' @ device_names_loop (string_from_type E) (available_types E) [])"

definition device_line :: "DeviceInfo \<Rightarrow> event" where
  "device_line info =
     Stdout (''    '' @ description info @ (if display_device info then '' (display)'' else [])
             @ [CHR ''\<newline>''])"

fun find_device :: "DeviceType \<Rightarrow> DeviceInfo list \<Rightarrow> DeviceInfo option" where
  "find_device device_type [] = None"
| "find_device device_type (dv # devices) =
     (if device_type = dev_type dv then Some dv else find_device device_type devices)"

text \<open>Lines 278 to 304: the shading system, background and progressive mode, and the first
  device of the requested type. The flag returned is \<open>device_available\<close>.\<close>

definition options_setup :: "'t env \<Rightarrow> string \<Rightarrow> string \<Rightarrow> 't driver \<Rightarrow> 't driver \<times> bool" where
  "options_setup E devicename ssname d0 =
     (let d1 = upd_options (\<lambda>opts.
                 if ssname = ''osl'' then opts\<lparr>scene_params := (scene_params opts)\<lparr>shadingsystem := OSL\<rparr>\<rparr>
                 else if ssname = ''svm'' then opts\<lparr>scene_params := (scene_params opts)\<lparr>shadingsystem := SVM\<rparr>\<rparr>
                 else opts) d0;
          d2 = upd_options (\<lambda>opts.
                 if WITH_CYCLES_STANDALONE_GUI E
                 then (if \<not> background (session_params opts)
                       then opts\<lparr>session_params := (session_params opts)\<lparr>progressive := True\<rparr>\<rparr>
                       else opts)
                 else opts\<lparr>session_params := (session_params opts)\<lparr>background := True\<rparr>\<rparr>) d1
      in case find_device (type_from_string E devicename) (available_devices E) of
           None \<Rightarrow> (d2, False)
         | Some dv \<Rightarrow>
             (upd_options (\<lambda>opts. opts\<lparr>session_params := (session_params opts)\<lparr>device := dv\<rparr>\<rparr>) d2, True))"

text \<open>Lines 306 to 331: the checks of the configuration, and the loading of the scene.\<close>

definition options_check :: "'t env \<Rightarrow> string \<Rightarrow> string \<Rightarrow> 't driver \<Rightarrow> 't result" where
  "options_check E devicename ssname d0 =
     (let (d3, device_available) = options_setup E devicename ssname d0;
          opts3 = options d3
      in if dev_type (device (session_params opts3)) = DEVICE_NONE \<or> \<not> device_available
         then Inl (Exit EXIT_FAILURE,
                   emit [Stderr (''Unknown device: '' @ devicename @ [CHR ''\<newline>''])] d3)
         else if WITH_OSL E \<and> \<not> (ssname = ''osl'' \<or> ssname = ''svm'')
         then Inl (Exit EXIT_FAILURE,
                   emit [Stderr (''Unknown shading system: '' @ ssname @ [CHR ''\<newline>''])] d3)
         else if WITH_OSL E \<and> shadingsystem (scene_params opts3) = OSL
                 \<and> dev_type (device (session_params opts3)) \<noteq> DEVICE_CPU
         then Inl (Exit EXIT_FAILURE,
                   emit [Stderr (''OSL shading system only works with CPU device'' @ [CHR ''\<newline>''])] d3)
         else if samples (session_params opts3) < 0
         then Inl (Exit EXIT_FAILURE,
                   emit [Stderr (''Invalid number of samples: '' @ string_of_int (samples (session_params opts3))
                                 @ [CHR ''\<newline>''])] d3)
         else if filepath opts3 = []
         then Inl (Exit EXIT_FAILURE,
                   emit [Stderr (''No file path specified'' @ [CHR ''\<newline>''])] d3)
         else Inr (scene_init E (opt_width opts3) (opt_height opts3) d3))"

text \<open>\<open>options_parse\<close>: the defaults, the command line, and the three early exits; the rest
  is \<open>options_check\<close>.\<close>

definition options_parse :: "'t env \<Rightarrow> cmdline \<Rightarrow> 't driver \<Rightarrow> 't result" where
  "options_parse E cl d0 =
     (let d1 = upd_options (\<lambda>opts. opts\<lparr>opt_width := 0, opt_height := 0, filepath := [],
                                        opt_session := None, quiet := False\<rparr>) d0;
          d2 = upd_options (ap_parse cl) d1
      in if cl_parse cl < 0
         then Inl (Exit EXIT_FAILURE, emit [Stderr (cl_error cl @ [CHR ''\<newline>'']), usage E] d2)
         else if cl_list cl
         then Inl (Exit EXIT_SUCCESS,
                   emit (Stdout (''Devices:'' @ [CHR ''\<newline>'']) # map device_line (available_devices E)) d2)
         else if cl_help cl \<or> filepath (options d2) = []
         then Inl (Exit EXIT_SUCCESS, emit [usage E] d2)
         else options_check E (devicename_of cl) (ssname_of E cl) d2)"

section \<open>The session as the driver uses it\<close>

text \<open>The classes \<open>Progress\<close> (util_progress.h) and \<open>Session\<close> (session.h) are missing
  from the sources; the methods that the driver calls are modelled from the spec.\<close>

text \<open>Modelled from the spec: \<open>Progress::get_sample\<close> is missing from the sources. It is a
  snapshot read of the sample index.\<close>

definition get_sample :: "'t Progress \<Rightarrow> int" where
  "get_sample p = sample p"

text \<open>Modelled from the spec: \<open>Progress::get_tile\<close> is missing from the sources. It is a
  snapshot read of the tile index, the total time and the time per sample.\<close>

definition get_tile :: "'t Progress \<Rightarrow> int \<times> 't \<times> 't" where
  "get_tile p = (tile p, total_time p, sample_time p)"

text \<open>Modelled from the spec: \<open>Progress::get_status\<close> is missing from the sources. It is a
  snapshot read of the status and the substatus.\<close>

definition get_status :: "'t Progress \<Rightarrow> string \<times> string" where
  "get_status p = (status p, substatus p)"

text \<open>Modelled from the spec: \<open>Progress::set_cancel\<close> is missing from the sources. It sets
  the cancellation flag and the reason.\<close>

definition set_cancel :: "string \<Rightarrow> 't Progress \<Rightarrow> 't Progress" where
  "set_cancel reason p = p\<lparr>cancel := True, cancel_message := reason\<rparr>"

text \<open>Modelled from the spec: \<open>Progress::set_update_callback\<close> is missing from the sources.
  It registers the one callback, replacing the previous one.\<close>

definition set_update_callback :: "callback \<Rightarrow> 't Progress \<Rightarrow> 't Progress" where
  "set_update_callback cb p = p\<lparr>update_cb := Some cb\<rparr>"

text \<open>Modelled from the spec: \<open>Session::reset\<close> is missing from the sources. It is valid from
  any state, sets the sample index to zero, takes the new buffer shape and the target
  sample count, and returns to \<open>Configured\<close>.\<close>

definition Session_reset :: "BufferParams \<Rightarrow> int \<Rightarrow> 't Session \<Rightarrow> 't Session" where
  "Session_reset bp n s =
     s\<lparr>progress := (progress s)\<lparr>sample := 0\<rparr>, sess_state := Configured,
       sess_buffer_params := Some bp, sess_samples := n\<rparr>"

text \<open>Modelled from the spec: \<open>Session::start\<close> is missing from the sources. It goes from
  \<open>Configured\<close> to \<open>Running\<close> and returns at once.\<close>

definition Session_start :: "'t Session \<Rightarrow> 't Session" where
  "Session_start s = (if sess_state s = Configured then s\<lparr>sess_state := Running\<rparr> else s)"

text \<open>Modelled from the spec: \<open>Session::wait\<close> is missing from the sources. It returns when
  \<open>Running\<close> has become \<open>Completed\<close> or \<open>Cancelled\<close>.\<close>

definition Session_wait :: "'t Session \<Rightarrow> 't Session" where
  "Session_wait s =
     (if sess_state s = Running
      then s\<lparr>sess_state := (if cancel (progress s) then Cancelled else Completed)\<rparr>
      else s)"

text \<open>Modelled from the spec: the destructor of \<open>Session\<close> is missing from the sources. It
  releases the scene of the session.\<close>

definition Session_dtor :: "'t Session \<Rightarrow> (nat \<Rightarrow> Scene option) \<Rightarrow> (nat \<Rightarrow> Scene option)" where
  "Session_dtor s h = (case sess_scene s of None \<Rightarrow> h | Some p \<Rightarrow> h(p := None))"

text \<open>A statement \<open>options.session->m(...)\<close>: a null pointer stops the run.\<close>

definition on_session :: "('t Session \<Rightarrow> 't Session) \<Rightarrow> event list \<Rightarrow> 't driver \<Rightarrow> 't result" where
  "on_session m es d =
     (case opt_session (options d) of
        None \<Rightarrow> Inl (NullPointer, d)
      | Some s \<Rightarrow> Inr (emit es (upd_options (\<lambda>opts. opts\<lparr>opt_session := Some (m s)\<rparr>) d)))"

section \<open>The functions of the driver\<close>

definition session_print :: "string \<Rightarrow> 't driver \<Rightarrow> 't driver" where
  "session_print str d0 =
     (let d1 = emit [Stdout (CHR 0x0D # str)] d0;
          len = int (length str);
          d2 = d1\<lparr>maxlen := max len (maxlen d1)\<rparr>;
          d3 = emit (replicate (nat (maxlen d2 - len)) (Stdout '' '')) d2
      in emit [Flush] d3)"

definition session_print_status :: "'t driver \<Rightarrow> 't result" where
  "session_print_status d =
     (case opt_session (options d) of
        None \<Rightarrow> Inl (NullPointer, d)
      | Some s \<Rightarrow>
          (let sample = get_sample (progress s);
               (tile, total_time, sample_time) = get_tile (progress s);
               (status, substatus) = get_status (progress s);
               status1 = (if substatus \<noteq> [] then status @ '': '' @ substatus else status);
               status2 = ''Sample '' @ string_of_int sample @ ''   '' @ status1
           in Inr (session_print status2 d)))"

text \<open>Modelled from the spec: the scheduling loop of \<open>Session\<close> is missing from the
  sources. After each batch it stores the new values in the Progress State and invokes
  the registered update callback, which gets no argument. \<open>view_redraw\<close> (util_view) only
  asks for a redisplay. Storing a report leaves the callback and the cancel flag as they
  are.\<close>

definition apply_update :: "'t progress_update \<Rightarrow> 't Progress \<Rightarrow> 't Progress" where
  "apply_update u p =
     p\<lparr>sample := new_sample u, tile := new_tile u, total_time := new_total_time u,
       sample_time := new_sample_time u, status := new_status u, substatus := new_substatus u\<rparr>"

text \<open>Modelled from the spec: one round of the scheduling loop, as the driver sees it. The
  render thread of \<open>options.session\<close> stores its report and runs the update callback that
  is registered at that time. Without a session there is no render thread.\<close>

definition render_step :: "'t progress_update \<Rightarrow> 't driver \<Rightarrow> 't result" where
  "render_step u d =
     (case opt_session (options d) of
        None \<Rightarrow> Inr d
      | Some s \<Rightarrow>
          (let d1 = upd_options
                      (\<lambda>opts. opts\<lparr>opt_session := Some (s\<lparr>progress := apply_update u (progress s)\<rparr>)\<rparr>) d
           in case update_cb (progress s) of
                None \<Rightarrow> Inr d1
              | Some session_print_status_cb \<Rightarrow> session_print_status d1
              | Some view_redraw_cb \<Rightarrow> Inr (emit [ViewRedraw] d1)))"

text \<open>Modelled from the spec: the rounds of the scheduling loop, one after the other.\<close>

fun render_steps :: "'t progress_update list \<Rightarrow> 't driver \<Rightarrow> 't result" where
  "render_steps [] d = Inr d"
| "render_steps (u # us) d = and_then (render_step u d) (render_steps us)"

definition session_buffer_params :: "'t driver \<Rightarrow> 't driver" where
  "session_buffer_params d =
     d\<lparr>buffer_params := (buffer_params d)\<lparr>bp_width := opt_width (options d),
                                            bp_height := opt_height (options d),
                                            full_width := opt_width (options d),
                                            full_height := opt_height (options d)\<rparr>\<rparr>"

text \<open>\<open>options.session->reset(session_buffer_params(), options.session_params.samples)\<close>,
  as \<open>session_init\<close>, \<open>resize\<close> and \<open>keyboard\<close> have it.\<close>

definition session_reset :: "'t driver \<Rightarrow> 't result" where
  "session_reset d0 =
     (let d1 = session_buffer_params d0;
          bp = buffer_params d1;
          n = samples (session_params (options d1))
      in on_session (Session_reset bp n) [SessionReset bp n] d1)"

text \<open>\<open>session_init\<close>, one step for each of its statements.\<close>

definition si_new :: "'t env \<Rightarrow> 't driver \<Rightarrow> 't result" where
  "si_new E d =
     Inr (emit [SessionNew (session_params (options d))]
            (upd_options (\<lambda>opts. opts\<lparr>opt_session := Some (Session_ctor E (session_params opts))\<rparr>) d))"

definition si_scene :: "'t driver \<Rightarrow> 't result" where
  "si_scene d =
     on_session (\<lambda>s. s\<lparr>sess_scene := opt_scene (options d)\<rparr>) [SessionSetScene (opt_scene (options d))] d"

definition si_callback :: "'t env \<Rightarrow> 't driver \<Rightarrow> 't result" where
  "si_callback E d =
     (if background (session_params (options d)) \<and> \<not> quiet (options d)
      then on_session (\<lambda>s. s\<lparr>progress := set_update_callback session_print_status_cb (progress s)\<rparr>)
             [SetUpdateCallback session_print_status_cb] d
      else if WITH_CYCLES_STANDALONE_GUI E
      then on_session (\<lambda>s. s\<lparr>progress := set_update_callback view_redraw_cb (progress s)\<rparr>)
             [SetUpdateCallback view_redraw_cb] d
      else Inr d)"

text \<open>\<open>options.session->start()\<close>: the render thread runs from here on, and may report
  before the driver goes on.\<close>

definition si_start :: "'t env \<Rightarrow> 't driver \<Rightarrow> 't result" where
  "si_start E d = and_then (on_session Session_start [SessionStart] d) (render_steps (start_updates E))"

definition si_release :: "'t driver \<Rightarrow> 't result" where
  "si_release d = Inr (upd_options (\<lambda>opts. opts\<lparr>opt_scene := None\<rparr>) d)"

definition session_init_steps :: "'t env \<Rightarrow> ('t driver \<Rightarrow> 't result) list" where
  "session_init_steps E = [si_new E, session_reset, si_scene, si_callback E, si_start E, si_release]"

fun run_steps :: "('t driver \<Rightarrow> 't result) list \<Rightarrow> 't driver \<Rightarrow> 't result" where
  "run_steps [] d = Inr d"
| "run_steps (f # fs) d = and_then (f d) (run_steps fs)"


definition session_init :: "'t env \<Rightarrow> 't driver \<Rightarrow> 't result" where
  "session_init E d = run_steps (session_init_steps E) d"

definition session_exit :: "'t driver \<Rightarrow> 't driver" where
  "session_exit d0 =
     (let d1 = (case opt_session (options d0) of
                  None \<Rightarrow> d0
                | Some s \<Rightarrow>
                    upd_options (\<lambda>opts. opts\<lparr>opt_session := None\<rparr>)
                      (emit [SessionDelete] (d0\<lparr>heap := Session_dtor s (heap d0)\<rparr>)));
          d2 = (case opt_scene (options d1) of
                  None \<Rightarrow> d1
                | Some p \<Rightarrow>
                    upd_options (\<lambda>opts. opts\<lparr>opt_scene := None\<rparr>)
                      (emit [SceneDelete p] (d1\<lparr>heap := (heap d1)(p := None)\<rparr>)))
      in if background (session_params (options d2)) \<and> \<not> quiet (options d2)
         then emit [Stdout [CHR ''\<newline>'']] (session_print ''Finished Rendering.'' d2)
         else d2)"

text \<open>The callbacks of the gui build. The text that \<open>display_info\<close> builds from the
  timings is not modelled: the event stands for the call of \<open>view_display_info\<close>.\<close>

definition display_info :: "'t driver \<Rightarrow> 't driver" where
  "display_info d =
     (let d1 = emit [ViewDisplayInfo] d
      in if show_help (options d1) then emit [ViewDisplayHelp] d1 else d1)"

definition display :: "'t driver \<Rightarrow> 't result" where
  "display d0 =
     (let d1 = session_buffer_params d0
      in and_then (on_session (\<lambda>s. s) [SessionDraw (buffer_params d1)] d1)
           (\<lambda>d2. Inr (display_info d2)))"

definition resize :: "int \<Rightarrow> int \<Rightarrow> 't driver \<Rightarrow> 't result" where
  "resize width height d0 =
     (let d1 = upd_options (\<lambda>opts. opts\<lparr>opt_width := width, opt_height := height\<rparr>) d0
      in if opt_session (options d1) \<noteq> None then session_reset d1 else Inr d1)"

definition keyboard :: "nat \<Rightarrow> 't driver \<Rightarrow> 't result" where
  "keyboard key d =
     (if key = of_char CHR ''r'' then session_reset d
      else if key = of_char CHR ''h''
      then Inr (upd_options (\<lambda>opts. opts\<lparr>show_help := \<not> show_help opts\<rparr>) d)
      else if key = 27
      then on_session (\<lambda>s. s\<lparr>progress := set_cancel ''Canceled'' (progress s)\<rparr>) [SetCancel ''Canceled''] d
      else Inr d)"

fun gui_callback :: "'t env \<Rightarrow> 't gui_call \<Rightarrow> 't driver \<Rightarrow> 't result" where
  "gui_callback E CallInit d = session_init E d"
| "gui_callback E CallExit d = Inr (session_exit d)"
| "gui_callback E (CallResize width height) d = resize width height d"
| "gui_callback E CallDisplay d = display d"
| "gui_callback E (CallKeyboard key) d = keyboard key d"
| "gui_callback E (Report u) d = render_step u d"

fun run_calls :: "'t env \<Rightarrow> 't gui_call list \<Rightarrow> 't driver \<Rightarrow> 't result" where
  "run_calls E [] d = Inr d"
| "run_calls E (c # cs) d = and_then (gui_callback E c d) (run_calls E cs)"

text \<open>\<open>options.session->wait()\<close>: the call, the reports of the render thread while the
  driver is blocked, and the return, if the render ends.\<close>

definition session_wait :: "'t env \<Rightarrow> 't driver \<Rightarrow> 't result" where
  "session_wait E d0 =
     (case opt_session (options d0) of
        None \<Rightarrow> Inl (NullPointer, d0)
      | Some s \<Rightarrow>
          and_then (render_steps (wait_updates E) (emit [SessionWait] d0))
            (\<lambda>d1. if wait_returns E
                  then on_session Session_wait [SessionWaitReturn] d1
                  else Inl (Blocked, d1)))"

text \<open>The three statements of \<open>main\<close> in background mode.\<close>

definition main_background :: "'t env \<Rightarrow> 't driver \<Rightarrow> 't result" where
  "main_background E d =
     and_then (session_init E d) (\<lambda>d1. and_then (session_wait E d1) (\<lambda>d2. Inr (session_exit d2)))"

definition main_view :: "'t env \<Rightarrow> 't driver \<Rightarrow> 't result" where
  "main_view E d =
     (let title = ''Cycles: '' @ path_filename E (filepath (options d))
      in run_calls E (view_calls E)
           (emit [ViewMainLoop title (opt_width (options d)) (opt_height (options d))] d))"

definition main :: "'t env \<Rightarrow> cmdline \<Rightarrow> 't driver \<Rightarrow> 't result" where
  "main E cl d0 =
     and_then (options_parse E cl (emit [PathInit] d0))
       (\<lambda>d1. if WITH_CYCLES_STANDALONE_GUI E \<and> \<not> background (session_params (options d1))
             then main_view E d1
             else main_background E d1)"

section \<open>Observations and example inputs\<close>

text \<open>The events a run has added to the trace of the state it started from.\<close>

definition new_events :: "'t driver \<Rightarrow> 't result \<Rightarrow> event list" where
  "new_events d r = drop (length (trace d)) (trace (final_state r))"

text \<open>The events that create, load, use or destroy a scene or a session.\<close>

definition engages :: "event \<Rightarrow> bool" where
  "engages e = (case e of
       SceneNew p sp dv \<Rightarrow> True | XmlReadFile p f \<Rightarrow> True | SceneDelete p \<Rightarrow> True
     | SessionNew sp \<Rightarrow> True | SessionReset bp n \<Rightarrow> True | SessionSetScene p \<Rightarrow> True
     | SetUpdateCallback cb \<Rightarrow> True | SessionStart \<Rightarrow> True | SessionWait \<Rightarrow> True
     | SessionWaitReturn \<Rightarrow> True | SessionDraw bp \<Rightarrow> True | SetCancel m \<Rightarrow> True | SessionDelete \<Rightarrow> True
     | _ \<Rightarrow> False)"

text \<open>The file path that the calls of \<open>files_parse\<close> leave in \<open>options.filepath\<close>.\<close>

definition scene_path :: "string list list \<Rightarrow> string \<Rightarrow> string" where
  "scene_path calls path = fold (\<lambda>argv path. case argv of [] \<Rightarrow> path | a # _ \<Rightarrow> a) calls path"

text \<open>The named device matches no available device: its name maps to the type "none", or
  no \<open>DeviceInfo\<close> has its type.\<close>

definition device_unmatched :: "'t env \<Rightarrow> cmdline \<Rightarrow> bool" where
  "device_unmatched E cl =
     (type_from_string E (devicename_of cl) = DEVICE_NONE \<or>
      list_all (\<lambda>dv. dev_type dv \<noteq> type_from_string E (devicename_of cl)) (available_devices E))"

text \<open>The command line gets past the three early exits of \<open>options_parse\<close>: it parses, asks
  neither for the list of devices nor for help, and names a scene file.\<close>

definition reaches_checks :: "cmdline \<Rightarrow> bool" where
  "reaches_checks cl =
     (\<not> cl_parse cl < 0 \<and> \<not> cl_list cl \<and> \<not> cl_help cl \<and> scene_path (cl_files cl) [] \<noteq> [])"

text \<open>\<open>options.scene->camera\<close>.\<close>

definition scene_camera :: "'t driver \<Rightarrow> Camera option" where
  "scene_camera d =
     (case opt_scene (options d) of None \<Rightarrow> None | Some p \<Rightarrow> map_option camera (heap d p))"

definition example_devices :: "DeviceInfo list" where
  "example_devices =
     [\<lparr>dev_type = DEVICE_CPU, description = ''Intel Xeon'', display_device = True\<rparr>,
      \<lparr>dev_type = DEVICE_OTHER 0, description = ''GeForce'', display_device = False\<rparr>]"

definition example_env :: "nat env" where
  "example_env =
     \<lparr>WITH_OSL = True, WITH_CYCLES_STANDALONE_GUI = False,
      available_types = [DEVICE_CPU, DEVICE_OTHER 0],
      available_devices = example_devices,
      type_from_string = (\<lambda>name. if name = ''cpu'' then DEVICE_CPU
                                   else if name = ''cuda'' then DEVICE_OTHER 0 else DEVICE_NONE),
      string_from_type = (\<lambda>ty. case ty of DEVICE_CPU \<Rightarrow> ''cpu'' | DEVICE_OTHER n \<Rightarrow> ''cuda'' | DEVICE_NONE \<Rightarrow> []),
      Scene_ctor = (\<lambda>sp dv. \<lparr>scene_ctor_params = sp, scene_ctor_device = dv,
                              camera = \<lparr>cam_width = 1024, cam_height = 512\<rparr>\<rparr>),
      Session_ctor = (\<lambda>sp. \<lparr>sess_params = sp, sess_scene = None,
                            progress = \<lparr>sample = 0, tile = 0, total_time = 0, sample_time = 0,
                                        status = [], substatus = [], cancel = False,
                                        cancel_message = [], update_cb = None\<rparr>,
                            sess_state = Uninitialized, sess_buffer_params = None, sess_samples = 0\<rparr>),
      xml_read_file = (\<lambda>path sc. sc\<lparr>camera := \<lparr>cam_width = 800, cam_height = 600\<rparr>\<rparr>),
      path_filename = (\<lambda>path. path),
      view_calls = [],
      start_updates = [],
      wait_updates =
        [\<lparr>new_sample = 1, new_tile = 0, new_total_time = 2, new_sample_time = 2,
          new_status = ''Path Tracing'', new_substatus = ''Tile 1/4''\<rparr>,
         \<lparr>new_sample = 16, new_tile = 3, new_total_time = 40, new_sample_time = 2,
          new_status = ''Done'', new_substatus = []\<rparr>],
      wait_returns = True\<rparr>"

text \<open>\<open>cycles --samples 16 scene.xml\<close>\<close>

definition example_cmdline :: cmdline where
  "example_cmdline =
     \<lparr>cl_parse = 0, cl_error = [], cl_files = [[''scene.xml'']], cl_device = None,
      cl_shadingsys = None, cl_background = False, cl_quiet = False, cl_samples = Some 16,
      cl_output = None, cl_threads = None, cl_width = None, cl_height = None,
      cl_list = False, cl_help = False\<rparr>"

definition initial_driver :: "nat driver" where
  "initial_driver =
     \<lparr>options = \<lparr>opt_session = None, opt_scene = None, filepath = [], opt_width = 0, opt_height = 0,
                 scene_params = \<lparr>shadingsystem = SVM\<rparr>,
                 session_params = \<lparr>device = \<lparr>dev_type = DEVICE_CPU, description = ''CPU'', display_device = False\<rparr>,
                                   background = False, progressive = False, samples = 10,
                                   output_path = [], threads = 0\<rparr>,
                 quiet = False, show_help = False\<rparr>,
      maxlen = 0,
      buffer_params = \<lparr>bp_width = 0, bp_height = 0, full_width = 0, full_height = 0\<rparr>,
      heap = (\<lambda>p. None), next_free = 0, trace = []\<rparr>"

text \<open>The buffer parameters of a full frame of the size in \<open>options\<close>.\<close>

definition frame_of :: "'t driver \<Rightarrow> BufferParams" where
  "frame_of d = \<lparr>bp_width = opt_width (options d), bp_height = opt_height (options d),
                 full_width = opt_width (options d), full_height = opt_height (options d)\<rparr>"

text \<open>The update callback that \<open>session_init\<close> registers, if any.\<close>

definition registered_callback :: "'t env \<Rightarrow> 't driver \<Rightarrow> callback option" where
  "registered_callback E d =
     (if background (session_params (options d)) \<and> \<not> quiet (options d) then Some session_print_status_cb
      else if WITH_CYCLES_STANDALONE_GUI E then Some view_redraw_cb else None)"

text \<open>The session that \<open>session_init\<close> leaves in \<open>options.session\<close>.\<close>

definition started_session :: "'t env \<Rightarrow> 't driver \<Rightarrow> 't Session" where
  "started_session E d =
     (let s1 = Session_reset (frame_of d) (samples (session_params (options d)))
                 (Session_ctor E (session_params (options d)));
          s2 = s1\<lparr>sess_scene := opt_scene (options d)\<rparr>;
          s3 = (case registered_callback E d of
                  None \<Rightarrow> s2
                | Some cb \<Rightarrow> s2\<lparr>progress := set_update_callback cb (progress s2)\<rparr>)
      in Session_start s3)"

text \<open>What \<open>session_print\<close> writes when the longest line so far had \<open>m\<close> characters.\<close>

definition printed :: "string \<Rightarrow> int \<Rightarrow> event list" where
  "printed str m =
     Stdout (CHR 0x0D # str) # replicate (nat (max (int (length str)) m - int (length str))) (Stdout '' '')
     @ [Flush]"

text \<open>A \<open>reset\<close> or \<open>draw\<close> whose buffer parameters describe the full frame.\<close>

definition full_frame :: "event \<Rightarrow> bool" where
  "full_frame e = (case e of
       SessionReset bp n \<Rightarrow> full_width bp = bp_width bp \<and> full_height bp = bp_height bp
     | SessionDraw bp \<Rightarrow> full_width bp = bp_width bp \<and> full_height bp = bp_height bp
     | _ \<Rightarrow> True)"

text \<open>The \<open>delete options.scene\<close> of \<open>session_exit\<close>.\<close>

definition is_SceneDelete :: "event \<Rightarrow> bool" where
  "is_SceneDelete e = (case e of SceneDelete p \<Rightarrow> True | _ \<Rightarrow> False)"

text \<open>The trace of \<open>d'\<close> is the trace of \<open>d\<close> followed by events that satisfy \<open>P\<close>.\<close>

definition grows_by :: "(event \<Rightarrow> bool) \<Rightarrow> 't driver \<Rightarrow> 't driver \<Rightarrow> bool" where
  "grows_by P d d' =
     (take (length (trace d)) (trace d') = trace d \<and> list_all P (drop (length (trace d)) (trace d')))"


text \<open>The line that \<open>session_print_status\<close> builds from a sample number and a status pair.\<close>

definition status_line :: "int \<Rightarrow> string \<times> string \<Rightarrow> string" where
  "status_line n st =
     ''Sample '' @ string_of_int n @ ''   '' @ (if snd st \<noteq> [] then fst st @ '': '' @ snd st else fst st)"

text \<open>The events of the update callbacks: the output of \<open>session_print_status\<close> and the
  request of \<open>view_redraw\<close>.\<close>

definition render_output :: "event \<Rightarrow> bool" where
  "render_output e = (case e of Stdout s \<Rightarrow> True | Flush \<Rightarrow> True | ViewRedraw \<Rightarrow> True | _ \<Rightarrow> False)"

text \<open>What one report of the render thread adds to the trace, and what it makes of
  \<open>maxlen\<close>, when \<open>cb\<close> is the update callback.\<close>

definition report_events :: "callback option \<Rightarrow> 't progress_update \<Rightarrow> int \<Rightarrow> event list" where
  "report_events cb u m =
     (case cb of
        None \<Rightarrow> []
      | Some session_print_status_cb \<Rightarrow> printed (status_line (new_sample u) (new_status u, new_substatus u)) m
      | Some view_redraw_cb \<Rightarrow> [ViewRedraw])"

definition report_maxlen :: "callback option \<Rightarrow> 't progress_update \<Rightarrow> int \<Rightarrow> int" where
  "report_maxlen cb u m =
     (case cb of
        Some session_print_status_cb \<Rightarrow>
          max (int (length (status_line (new_sample u) (new_status u, new_substatus u)))) m
      | _ \<Rightarrow> m)"

fun reports_maxlen :: "callback option \<Rightarrow> 't progress_update list \<Rightarrow> int \<Rightarrow> int" where
  "reports_maxlen cb [] m = m"
| "reports_maxlen cb (u # us) m = reports_maxlen cb us (report_maxlen cb u m)"

fun reports_events :: "callback option \<Rightarrow> 't progress_update list \<Rightarrow> int \<Rightarrow> event list" where
  "reports_events cb [] m = []"
| "reports_events cb (u # us) m = report_events cb u m @ reports_events cb us (report_maxlen cb u m)"

text \<open>A session after the reports \<open>us\<close>.\<close>

definition reported :: "'t progress_update list \<Rightarrow> 't Session \<Rightarrow> 't Session" where
  "reported us s = s\<lparr>progress := fold apply_update us (progress s)\<rparr>"

text \<open>What \<open>session_exit\<close> prints at the end.\<close>

definition finish_events :: "'t driver \<Rightarrow> event list" where
  "finish_events d =
     (if background (session_params (options d)) \<and> \<not> quiet (options d)
      then printed ''Finished Rendering.'' (maxlen d) @ [Stdout [CHR ''\<newline>'']] else [])"

text \<open>A heap after the scene at \<open>p\<close>, if any, has been released.\<close>

definition released :: "nat option \<Rightarrow> (nat \<Rightarrow> Scene option) \<Rightarrow> (nat \<Rightarrow> Scene option)" where
  "released p h = (case p of None \<Rightarrow> h | Some a \<Rightarrow> h(a := None))"


text \<open>A progress state in the middle of a render, and a driver whose session has it.\<close>

definition example_progress :: "nat Progress" where
  "example_progress =
     \<lparr>sample = 3, tile = 1, total_time = 12, sample_time = 4, status = ''Path Tracing'',
      substatus = ''Tile 1/4'', cancel = False, cancel_message = [], update_cb = Some session_print_status_cb\<rparr>"

definition rendering_driver :: "nat driver" where
  "rendering_driver =
     initial_driver\<lparr>options := (options initial_driver)
       \<lparr>opt_session := Some ((Session_ctor example_env (session_params (options initial_driver)))
                               \<lparr>progress := example_progress\<rparr>)\<rparr>\<rparr>"

text \<open>The driver after \<open>options_parse\<close> for \<open>cycles --samples 16 scene.xml\<close>.\<close>

definition loaded_driver :: "nat driver" where
  "loaded_driver = final_state (options_parse example_env example_cmdline initial_driver)"

text \<open>The driver right after the statement \<open>options.session->start()\<close> of \<open>session_init\<close>
  and the reports of the render thread that come before the next statement.\<close>

definition started :: "'t env \<Rightarrow> 't driver \<Rightarrow> 't driver" where
  "started E d =
     d\<lparr>options := (options d)\<lparr>opt_session := Some (reported (start_updates E) (started_session E d))\<rparr>,
       buffer_params := frame_of d,
       maxlen := reports_maxlen (update_cb (progress (started_session E d))) (start_updates E) (maxlen d),
       trace := trace d @
         [SessionNew (session_params (options d)),
          SessionReset (frame_of d) (samples (session_params (options d))),
          SessionSetScene (opt_scene (options d))]
         @ (case registered_callback E d of None \<Rightarrow> [] | Some cb \<Rightarrow> [SetUpdateCallback cb])
         @ [SessionStart]
         @ reports_events (update_cb (progress (started_session E d))) (start_updates E) (maxlen d)\<rparr>"

text \<open>What \<open>main\<close> adds to the trace in background mode up to the point where \<open>wait()\<close>
  returns or blocks for good.\<close>

definition run_up_to_wait :: "'t env \<Rightarrow> 't driver \<Rightarrow> event list" where
  "run_up_to_wait E d =
     [SessionNew (session_params (options d)),
      SessionReset (frame_of d) (samples (session_params (options d))),
      SessionSetScene (opt_scene (options d))]
     @ (case registered_callback E d of None \<Rightarrow> [] | Some cb \<Rightarrow> [SetUpdateCallback cb])
     @ [SessionStart]
     @ reports_events (update_cb (progress (started_session E d))) (start_updates E) (maxlen d)
     @ SessionWait
     # reports_events (update_cb (progress (started_session E d))) (wait_updates E)
         (reports_maxlen (update_cb (progress (started_session E d))) (start_updates E) (maxlen d))"

section \<open>Basic facts\<close>

lemma trace_emit [simp]: "trace (emit es d) = trace d @ es"
  by (simp add: emit_def)

lemma trace_upd_options [simp]: "trace (upd_options f d) = trace d"
  by (simp add: upd_options_def)

lemma options_upd_options [simp]: "options (upd_options f d) = f (options d)"
  by (simp add: upd_options_def)

lemma options_emit [simp]: "options (emit es d) = options d"
  by (simp add: emit_def)

lemma heap_emit [simp]: "heap (emit es d) = heap d"
  by (simp add: emit_def)

lemma heap_upd_options [simp]: "heap (upd_options f d) = heap d"
  by (simp add: upd_options_def)

lemma maxlen_upd_options [simp]: "maxlen (upd_options f d) = maxlen d"
  by (simp add: upd_options_def)

lemma maxlen_emit [simp]: "maxlen (emit es d) = maxlen d"
  by (simp add: emit_def)

lemma new_events_Inl [simp]:
  "new_events d (Inl (e, d')) = drop (length (trace d)) (trace d')"
  by (simp add: new_events_def final_state_def)

lemma new_events_Inr [simp]:
  "new_events d (Inr d') = drop (length (trace d)) (trace d')"
  by (simp add: new_events_def final_state_def)

lemma stopped_simps [simp]:
  "stopped (Inl (e, d)) = Some e" "stopped (Inr d) = None"
  by (simp_all add: stopped_def)

lemma final_state_simps [simp]:
  "final_state (Inl (e, d)) = d" "final_state (Inr d) = d"
  by (simp_all add: final_state_def)

lemma engages_simps [simp]:
  "\<not> engages (Stdout s)" "\<not> engages (Stderr s)" "\<not> engages Flush" "\<not> engages (Usage s)"
  "\<not> engages PathInit" "\<not> engages (device_line info)" "\<not> engages (usage E)"
  by (simp_all add: engages_def device_line_def usage_def)

lemma filter_engages_device_lines [simp]: "filter engages (map device_line dvs) = []"
  by (induction dvs) simp_all

section \<open>The command line and the device\<close>

lemma fold_files_parse:
  "fold files_parse calls opts = opts\<lparr>filepath := scene_path calls (filepath opts)\<rparr>"
  unfolding scene_path_def
  by (induction calls arbitrary: opts) (auto simp: files_parse_def split: list.splits)

lemma filepath_ap_parse [simp]:
  "filepath (ap_parse cl opts) = scene_path (cl_files cl) (filepath opts)"
  by (simp add: ap_parse_def Let_def fold_files_parse)

lemma find_device_None:
  "(find_device ty dvs = None) = list_all (\<lambda>dv. dev_type dv \<noteq> ty) dvs"
  by (induction dvs) auto

lemma find_device_Some: "find_device ty dvs = Some dv \<Longrightarrow> dev_type dv = ty"
  by (induction dvs) (auto split: if_splits)

lemma options_setup_frame [simp]:
  "trace (fst (options_setup E name ss d)) = trace d"
  "heap (fst (options_setup E name ss d)) = heap d"
  "next_free (fst (options_setup E name ss d)) = next_free d"
  "opt_width (options (fst (options_setup E name ss d))) = opt_width (options d)"
  "opt_height (options (fst (options_setup E name ss d))) = opt_height (options d)"
  "filepath (options (fst (options_setup E name ss d))) = filepath (options d)"
  by (simp_all add: options_setup_def Let_def upd_options_def split: option.splits)

lemma options_setup_device:
  "snd (options_setup E name ss d) = (find_device (type_from_string E name) (available_devices E) \<noteq> None)"
  "snd (options_setup E name ss d) \<Longrightarrow>
     dev_type (device (session_params (options (fst (options_setup E name ss d))))) = type_from_string E name"
  by (auto simp: options_setup_def Let_def split: option.splits dest: find_device_Some)

lemma options_setup_shading:
  "ss = ''osl'' \<Longrightarrow> shadingsystem (scene_params (options (fst (options_setup E name ss d)))) = OSL"
  "ss = ''svm'' \<Longrightarrow> shadingsystem (scene_params (options (fst (options_setup E name ss d)))) = SVM"
  by (simp_all add: options_setup_def Let_def split: option.splits)

lemma options_check_cases:
  "options_check E name ss d =
     (let d3 = fst (options_setup E name ss d); opts3 = options d3
      in if dev_type (device (session_params opts3)) = DEVICE_NONE \<or> \<not> snd (options_setup E name ss d)
         then Inl (Exit EXIT_FAILURE,
                   emit [Stderr (''Unknown device: '' @ name @ [CHR ''\<newline>''])] d3)
         else if WITH_OSL E \<and> \<not> (ss = ''osl'' \<or> ss = ''svm'')
         then Inl (Exit EXIT_FAILURE,
                   emit [Stderr (''Unknown shading system: '' @ ss @ [CHR ''\<newline>''])] d3)
         else if WITH_OSL E \<and> shadingsystem (scene_params opts3) = OSL
                 \<and> dev_type (device (session_params opts3)) \<noteq> DEVICE_CPU
         then Inl (Exit EXIT_FAILURE,
                   emit [Stderr (''OSL shading system only works with CPU device'' @ [CHR ''\<newline>''])] d3)
         else if samples (session_params opts3) < 0
         then Inl (Exit EXIT_FAILURE,
                   emit [Stderr (''Invalid number of samples: '' @ string_of_int (samples (session_params opts3))
                                 @ [CHR ''\<newline>''])] d3)
         else if filepath opts3 = []
         then Inl (Exit EXIT_FAILURE,
                   emit [Stderr (''No file path specified'' @ [CHR ''\<newline>''])] d3)
         else Inr (scene_init E (opt_width (options d)) (opt_height (options d)) d3))"
  by (simp only: options_check_def Let_def split_beta options_setup_frame)

lemma options_check_unmatched:
  assumes "type_from_string E name = DEVICE_NONE \<or>
           list_all (\<lambda>dv. dev_type dv \<noteq> type_from_string E name) (available_devices E)"
  shows "stopped (options_check E name ss d) = Some (Exit EXIT_FAILURE) \<and>
         new_events d (options_check E name ss d) =
           [Stderr (''Unknown device: '' @ name @ [CHR ''\<newline>''])]"
proof (cases "snd (options_setup E name ss d)")
  case False
  then show ?thesis
    by (simp add: options_check_cases Let_def)
next
  case True
  then have ty: "dev_type (device (session_params (options (fst (options_setup E name ss d)))))
                   = type_from_string E name"
    by (rule options_setup_device(2))
  from True have "\<not> list_all (\<lambda>dv. dev_type dv \<noteq> type_from_string E name) (available_devices E)"
    by (simp add: options_setup_device(1) find_device_None)
  with assms have "type_from_string E name = DEVICE_NONE"
    by blast
  with ty show ?thesis
    by (simp add: options_check_cases Let_def)
qed

lemma options_check_osl:
  assumes "WITH_OSL E" and "type_from_string E name \<noteq> DEVICE_CPU"
  shows "stopped (options_check E name ''osl'' d) = Some (Exit EXIT_FAILURE) \<and>
         new_events d (options_check E name ''osl'' d) =
           (if type_from_string E name = DEVICE_NONE \<or>
               list_all (\<lambda>dv. dev_type dv \<noteq> type_from_string E name) (available_devices E)
            then [Stderr (''Unknown device: '' @ name @ [CHR ''\<newline>''])]
            else [Stderr (''OSL shading system only works with CPU device'' @ [CHR ''\<newline>''])])"
proof (cases "type_from_string E name = DEVICE_NONE \<or>
              list_all (\<lambda>dv. dev_type dv \<noteq> type_from_string E name) (available_devices E)")
  case True
  then show ?thesis
    using options_check_unmatched [of E name "''osl''" d] by simp
next
  case False
  then have av: "snd (options_setup E name ''osl'' d)"
    by (simp add: options_setup_device(1) find_device_None)
  then have ty: "dev_type (device (session_params (options (fst (options_setup E name ''osl'' d)))))
                   = type_from_string E name"
    by (rule options_setup_device(2))
  have "shadingsystem (scene_params (options (fst (options_setup E name ''osl'' d)))) = OSL"
    by (simp add: options_setup_shading)
  with False av ty assms show ?thesis
    by (simp add: options_check_cases Let_def)
qed

lemma scene_init_params [simp]:
  "scene_params (options (scene_init E w h d)) = scene_params (options d)"
  "session_params (options (scene_init E w h d)) = session_params (options d)"
  by (simp_all add: scene_init_def new_Scene_def xml_read_def Let_def split: option.splits)

lemma scene_init_trace:
  "trace (scene_init E w h d) =
     trace d @ [SceneNew (next_free d) (scene_params (options d)) (device (session_params (options d))),
                XmlReadFile (next_free d) (filepath (options d))]"
  by (simp add: scene_init_def new_Scene_def xml_read_def Let_def split: option.splits)

lemma scene_init_dims:
  assumes "w = 0 \<or> h = 0"
  shows "scene_camera (scene_init E w h d) =
           Some (camera (xml_read_file E (filepath (options d))
                   (Scene_ctor E (scene_params (options d)) (device (session_params (options d)))))) \<and>
         map_option cam_width (scene_camera (scene_init E w h d)) = Some (opt_width (options (scene_init E w h d))) \<and>
         map_option cam_height (scene_camera (scene_init E w h d)) = Some (opt_height (options (scene_init E w h d)))"
  using assms
  by (simp add: scene_init_def new_Scene_def xml_read_def Let_def scene_camera_def)

lemma options_check_returns:
  assumes "options_check E name ss d = Inr d'"
  shows "d' = scene_init E (opt_width (options d)) (opt_height (options d)) (fst (options_setup E name ss d))"
    and "WITH_OSL E \<or> ss = ''svm'' \<Longrightarrow> shadingsystem (scene_params (options d')) = OSL \<Longrightarrow>
         dev_type (device (session_params (options d'))) = DEVICE_CPU"
proof -
  show d': "d' = scene_init E (opt_width (options d)) (opt_height (options d)) (fst (options_setup E name ss d))"
    using assms by (simp add: options_check_cases Let_def split: if_splits)
  assume "WITH_OSL E \<or> ss = ''svm''" and "shadingsystem (scene_params (options d')) = OSL"
  then show "dev_type (device (session_params (options d'))) = DEVICE_CPU"
    using assms unfolding d'
    by (auto simp: options_check_cases Let_def options_setup_shading split: if_splits)
qed

lemma options_parse_returns:
  assumes "options_parse E cl d = Inr d'"
  shows "reaches_checks cl \<and>
         options_check E (devicename_of cl) (ssname_of E cl)
           (upd_options (ap_parse cl)
               (upd_options (\<lambda>opts. opts\<lparr>opt_width := 0, opt_height := 0, filepath := [],
                                        opt_session := None, quiet := False\<rparr>) d)) = Inr d'"
  using assms
  by (simp add: options_parse_def Let_def reaches_checks_def split: if_splits)

lemmas example_defs =
  example_env_def example_devices_def example_cmdline_def initial_driver_def

lemmas options_parse_defs =
  options_parse_def options_check_def options_setup_def ap_parse_def files_parse_def
  devicename_of_def ssname_of_def set_opt_def usage_def device_line_def
  scene_init_def new_Scene_def xml_read_def Let_def upd_options_def emit_def

section \<open>Configuration errors\<close>

text \<open>
  C1 (as amended). When the named device matches no available device, \<open>options_parse\<close>
  always ends the process with \<open>exit\<close> and never creates, loads or starts a scene or a
  session. If the arguments do not parse, it prints the error and the usage and the exit
  status is \<open>EXIT_FAILURE\<close>; otherwise, with \<open>--list-devices\<close>, it prints the device list
  and the status is \<open>EXIT_SUCCESS\<close>; otherwise, with \<open>--help\<close>, it prints the usage and
  the status is \<open>EXIT_SUCCESS\<close>; otherwise, when a scene file is named, the only output
  is the line "Unknown device: <name>" on stderr and the status is \<open>EXIT_FAILURE\<close>.
\<close>

theorem unknown_device_exits:
  assumes "device_unmatched E cl"
  shows "(if cl_parse cl < 0
          then stopped (options_parse E cl d) = Some (Exit EXIT_FAILURE) \<and>
               new_events d (options_parse E cl d) = [Stderr (cl_error cl @ [CHR ''\<newline>'']), usage E]
          else if cl_list cl
          then stopped (options_parse E cl d) = Some (Exit EXIT_SUCCESS) \<and>
               new_events d (options_parse E cl d) =
                 Stdout (''Devices:'' @ [CHR ''\<newline>'']) # map device_line (available_devices E)
          else if cl_help cl
          then stopped (options_parse E cl d) = Some (Exit EXIT_SUCCESS) \<and>
               new_events d (options_parse E cl d) = [usage E]
          else if scene_path (cl_files cl) [] \<noteq> []
          then stopped (options_parse E cl d) = Some (Exit EXIT_FAILURE) \<and>
               new_events d (options_parse E cl d) =
                 [Stderr (''Unknown device: '' @ devicename_of cl @ [CHR ''\<newline>''])]
          else stopped (options_parse E cl d) = Some (Exit EXIT_SUCCESS) \<or>
               stopped (options_parse E cl d) = Some (Exit EXIT_FAILURE)) \<and>
         filter engages (new_events d (options_parse E cl d)) = []"
proof -
  let ?d2 = "upd_options (ap_parse cl)
               (upd_options (\<lambda>opts. opts\<lparr>opt_width := 0, opt_height := 0, filepath := [],
                                        opt_session := None, quiet := False\<rparr>) d)"
  from assms have chk:
    "stopped (options_check E (devicename_of cl) (ssname_of E cl) ?d2) = Some (Exit EXIT_FAILURE) \<and>
     new_events ?d2 (options_check E (devicename_of cl) (ssname_of E cl) ?d2) =
       [Stderr (''Unknown device: '' @ devicename_of cl @ [CHR ''\<newline>''])]"
    unfolding device_unmatched_def by (rule options_check_unmatched)
  then have chk': "new_events d (options_check E (devicename_of cl) (ssname_of E cl) ?d2) =
       [Stderr (''Unknown device: '' @ devicename_of cl @ [CHR ''\<newline>''])]"
    by (simp add: new_events_def)
  show ?thesis
    using chk chk' by (simp add: options_parse_def Let_def)
qed

text \<open>\<open>cycles --device bogus scene.xml\<close> and \<open>cycles --device bogus --list-devices
  scene.xml\<close> on a machine with a CPU and a GPU.\<close>

theorem unknown_device_exits_witness:
  "device_unmatched example_env (example_cmdline\<lparr>cl_device := Some ''bogus''\<rparr>) \<and>
   reaches_checks (example_cmdline\<lparr>cl_device := Some ''bogus''\<rparr>) \<and>
   stopped (options_parse example_env (example_cmdline\<lparr>cl_device := Some ''bogus''\<rparr>) initial_driver)
     = Some (Exit EXIT_FAILURE) \<and>
   new_events initial_driver
     (options_parse example_env (example_cmdline\<lparr>cl_device := Some ''bogus''\<rparr>) initial_driver)
     = [Stderr (''Unknown device: bogus'' @ [CHR ''\<newline>''])] \<and>
   device_unmatched example_env (example_cmdline\<lparr>cl_device := Some ''bogus'', cl_list := True\<rparr>) \<and>
   stopped (options_parse example_env (example_cmdline\<lparr>cl_device := Some ''bogus'', cl_list := True\<rparr>)
              initial_driver) = Some (Exit EXIT_SUCCESS) \<and>
   new_events initial_driver
     (options_parse example_env (example_cmdline\<lparr>cl_device := Some ''bogus'', cl_list := True\<rparr>)
        initial_driver)
     = [Stdout (''Devices:'' @ [CHR ''\<newline>'']),
        Stdout (''    Intel Xeon (display)'' @ [CHR ''\<newline>'']),
        Stdout (''    GeForce'' @ [CHR ''\<newline>''])]"
proof -
  have u: "device_unmatched example_env (example_cmdline\<lparr>cl_device := Some ''bogus''\<rparr>)"
    and ul: "device_unmatched example_env (example_cmdline\<lparr>cl_device := Some ''bogus'', cl_list := True\<rparr>)"
    by (simp_all add: device_unmatched_def devicename_of_def set_opt_def example_defs)
  have r: "reaches_checks (example_cmdline\<lparr>cl_device := Some ''bogus''\<rparr>)"
    by (simp add: reaches_checks_def scene_path_def example_defs)
  from unknown_device_exits [OF u, of initial_driver] unknown_device_exits [OF ul, of initial_driver]
    u ul r
  show ?thesis
    by (simp add: devicename_of_def set_opt_def example_cmdline_def example_env_def
          example_devices_def device_line_def reaches_checks_def)
qed

text \<open>The claim as first stated fails: \<open>cycles --device bogus --help scene.xml\<close> names a
  device that matches nothing, prints the usage only, and exits with \<open>EXIT_SUCCESS\<close>.\<close>

theorem unknown_device_with_help:
  "device_unmatched example_env (example_cmdline\<lparr>cl_device := Some ''bogus'', cl_help := True\<rparr>) \<and>
   stopped (options_parse example_env (example_cmdline\<lparr>cl_device := Some ''bogus'', cl_help := True\<rparr>)
              initial_driver) = Some (Exit EXIT_SUCCESS) \<and>
   new_events initial_driver
     (options_parse example_env (example_cmdline\<lparr>cl_device := Some ''bogus'', cl_help := True\<rparr>)
        initial_driver) = [Usage ''Devices to use: cpu, cuda'']"
  by (simp add: device_unmatched_def example_defs options_parse_defs)

text \<open>What \<open>options_parse\<close> does when no scene file is named: the outcome of the first
  three branches. The branch "No file path specified" of \<open>options_check\<close> is not among
  them.\<close>

lemma options_parse_no_path:
  assumes "scene_path (cl_files cl) [] = []"
  shows "(if cl_parse cl < 0
          then stopped (options_parse E cl d) = Some (Exit EXIT_FAILURE) \<and>
               new_events d (options_parse E cl d) = [Stderr (cl_error cl @ [CHR ''\<newline>'']), usage E]
          else stopped (options_parse E cl d) = Some (Exit EXIT_SUCCESS) \<and>
               new_events d (options_parse E cl d) =
                 (if cl_list cl
                  then Stdout (''Devices:'' @ [CHR ''\<newline>'']) # map device_line (available_devices E)
                  else [usage E])) \<and>
         filter engages (new_events d (options_parse E cl d)) = []"
  using assms by (simp add: options_parse_def Let_def)

lemma no_file_path_message_unreachable:
  assumes "\<not> cl_parse cl < 0"
  shows "Stderr (''No file path specified'' @ [CHR ''\<newline>'']) \<notin> set (new_events d (options_parse E cl d))"
proof -
  let ?d2 = "upd_options (ap_parse cl)
               (upd_options (\<lambda>opts. opts\<lparr>opt_width := 0, opt_height := 0, filepath := [],
                                        opt_session := None, quiet := False\<rparr>) d)"
  have f: "filepath (options ?d2) = scene_path (cl_files cl) []"
    by simp
  have t: "trace ?d2 = trace d"
    by simp
  have "scene_path (cl_files cl) [] \<noteq> [] \<Longrightarrow>
          Stderr (''No file path specified'' @ [CHR ''\<newline>''])
            \<notin> set (new_events d (options_check E (devicename_of cl) (ssname_of E cl) ?d2))"
    unfolding options_check_cases Let_def options_setup_frame f
    by (simp add: scene_init_trace)
  with assms show ?thesis
    by (auto simp: options_parse_def Let_def device_line_def usage_def)
qed

text \<open>
  C2 (the code departs from the claim). A missing scene file path is a configuration
  error with a branch of its own in the source: "No file path specified" and
  \<open>EXIT_FAILURE\<close>, next to the branch for a negative sample count. The exit for
  \<open>--help\<close> comes first and also takes the empty path, so that branch is never reached:
  \<open>cycles --samples 16\<close> prints the usage and exits with \<open>EXIT_SUCCESS\<close>, whereas
  \<open>cycles --samples -1 scene.xml\<close> prints its error and exits with \<open>EXIT_FAILURE\<close>.
\<close>

theorem no_scene_path_is_success:
  "scene_path (cl_files (example_cmdline\<lparr>cl_files := []\<rparr>)) [] = [] \<and>
   stopped (options_parse example_env (example_cmdline\<lparr>cl_files := []\<rparr>) initial_driver)
     = Some (Exit EXIT_SUCCESS) \<and>
   new_events initial_driver (options_parse example_env (example_cmdline\<lparr>cl_files := []\<rparr>) initial_driver)
     = [Usage ''Devices to use: cpu, cuda''] \<and>
   stopped (options_parse example_env (example_cmdline\<lparr>cl_samples := Some (- 1)\<rparr>) initial_driver)
     = Some (Exit EXIT_FAILURE) \<and>
   new_events initial_driver (options_parse example_env (example_cmdline\<lparr>cl_samples := Some (- 1)\<rparr>) initial_driver)
     = [Stderr (''Invalid number of samples: -1'' @ [CHR ''\<newline>''])]"
  by (simp add: scene_path_def example_defs options_parse_defs string_of_int_def digit_char_def)

text \<open>
  C9 (as amended). In a build with OSL, when the OSL shading system is selected together
  with a device whose type is not CPU, \<open>options_parse\<close> always ends the process with
  \<open>exit\<close>, before a scene is loaded or a session started; when the command line gets
  past the early exits (it parses, asks neither for the device list nor for help, and
  names a scene file) the exit status is \<open>EXIT_FAILURE\<close>, with the message
  "OSL shading system only works with CPU device" if the device is available and
  "Unknown device" if it is not. Whenever \<open>options_parse\<close> returns with the OSL
  shading system, the device is a CPU device.
\<close>

theorem osl_requires_cpu:
  "(WITH_OSL E \<and> ssname_of E cl = ''osl'' \<and> type_from_string E (devicename_of cl) \<noteq> DEVICE_CPU \<longrightarrow>
      (stopped (options_parse E cl d) = Some (Exit EXIT_SUCCESS) \<or>
       stopped (options_parse E cl d) = Some (Exit EXIT_FAILURE)) \<and>
      filter engages (new_events d (options_parse E cl d)) = [] \<and>
      (reaches_checks cl \<longrightarrow>
         stopped (options_parse E cl d) = Some (Exit EXIT_FAILURE) \<and>
         new_events d (options_parse E cl d) =
           (if device_unmatched E cl
            then [Stderr (''Unknown device: '' @ devicename_of cl @ [CHR ''\<newline>''])]
            else [Stderr (''OSL shading system only works with CPU device'' @ [CHR ''\<newline>''])]))) \<and>
   (stopped (options_parse E cl d) = None \<and>
    shadingsystem (scene_params (options (final_state (options_parse E cl d)))) = OSL \<longrightarrow>
      dev_type (device (session_params (options (final_state (options_parse E cl d))))) = DEVICE_CPU)"
proof (intro conjI impI)
  let ?d2 = "upd_options (ap_parse cl)
               (upd_options (\<lambda>opts. opts\<lparr>opt_width := 0, opt_height := 0, filepath := [],
                                        opt_session := None, quiet := False\<rparr>) d)"
  let ?r = "options_parse E cl d"
  {
    assume a: "WITH_OSL E \<and> ssname_of E cl = ''osl'' \<and> type_from_string E (devicename_of cl) \<noteq> DEVICE_CPU"
    have chk:
      "stopped (options_check E (devicename_of cl) ''osl'' ?d2) = Some (Exit EXIT_FAILURE) \<and>
       new_events ?d2 (options_check E (devicename_of cl) ''osl'' ?d2) =
         (if device_unmatched E cl
          then [Stderr (''Unknown device: '' @ devicename_of cl @ [CHR ''\<newline>''])]
          else [Stderr (''OSL shading system only works with CPU device'' @ [CHR ''\<newline>''])])"
      unfolding device_unmatched_def using a by (intro options_check_osl) simp_all
    then have chk': "new_events d (options_check E (devicename_of cl) ''osl'' ?d2) =
         (if device_unmatched E cl
          then [Stderr (''Unknown device: '' @ devicename_of cl @ [CHR ''\<newline>''])]
          else [Stderr (''OSL shading system only works with CPU device'' @ [CHR ''\<newline>''])])"
      by (simp add: new_events_def)
    show "stopped ?r = Some (Exit EXIT_SUCCESS) \<or> stopped ?r = Some (Exit EXIT_FAILURE)"
      using a chk by (simp add: options_parse_def Let_def)
    show "filter engages (new_events d ?r) = []"
      using a chk chk' by (simp add: options_parse_def Let_def)
    {
      assume r: "reaches_checks cl"
      show "stopped ?r = Some (Exit EXIT_FAILURE)"
        using a chk r by (simp add: options_parse_def Let_def reaches_checks_def)
      show "new_events d ?r =
           (if device_unmatched E cl
            then [Stderr (''Unknown device: '' @ devicename_of cl @ [CHR ''\<newline>''])]
            else [Stderr (''OSL shading system only works with CPU device'' @ [CHR ''\<newline>''])])"
        using a chk' r by (simp add: options_parse_def Let_def reaches_checks_def)
    }
  }
  {
    assume b: "stopped ?r = None \<and> shadingsystem (scene_params (options (final_state ?r))) = OSL"
    then obtain d' where d': "?r = Inr d'"
      by (cases ?r) (auto simp: stopped_def)
    then have "options_check E (devicename_of cl) (ssname_of E cl) ?d2 = Inr d'"
      using options_parse_returns by blast
    moreover have "WITH_OSL E \<or> ssname_of E cl = ''svm''"
      by (simp add: ssname_of_def)
    ultimately have "shadingsystem (scene_params (options d')) = OSL \<longrightarrow>
         dev_type (device (session_params (options d'))) = DEVICE_CPU"
      using options_check_returns(2) by blast
    with b d' show "dev_type (device (session_params (options (final_state ?r)))) = DEVICE_CPU"
      by simp
  }
qed

text \<open>\<open>cycles --shadingsys osl --device cuda --samples 16 scene.xml\<close> is refused, and
  \<open>cycles --shadingsys osl --samples 16 scene.xml\<close> returns with OSL on the CPU.\<close>

theorem osl_requires_cpu_witness:
  "WITH_OSL example_env \<and>
   ssname_of example_env (example_cmdline\<lparr>cl_shadingsys := Some ''osl'', cl_device := Some ''cuda''\<rparr>) = ''osl'' \<and>
   type_from_string example_env
     (devicename_of (example_cmdline\<lparr>cl_shadingsys := Some ''osl'', cl_device := Some ''cuda''\<rparr>)) \<noteq> DEVICE_CPU \<and>
   reaches_checks (example_cmdline\<lparr>cl_shadingsys := Some ''osl'', cl_device := Some ''cuda''\<rparr>) \<and>
   stopped (options_parse example_env
              (example_cmdline\<lparr>cl_shadingsys := Some ''osl'', cl_device := Some ''cuda''\<rparr>) initial_driver)
     = Some (Exit EXIT_FAILURE) \<and>
   new_events initial_driver
     (options_parse example_env
        (example_cmdline\<lparr>cl_shadingsys := Some ''osl'', cl_device := Some ''cuda''\<rparr>) initial_driver)
     = [Stderr (''OSL shading system only works with CPU device'' @ [CHR ''\<newline>''])] \<and>
   stopped (options_parse example_env (example_cmdline\<lparr>cl_shadingsys := Some ''osl''\<rparr>) initial_driver) = None \<and>
   shadingsystem (scene_params (options (final_state
     (options_parse example_env (example_cmdline\<lparr>cl_shadingsys := Some ''osl''\<rparr>) initial_driver)))) = OSL \<and>
   dev_type (device (session_params (options (final_state
     (options_parse example_env (example_cmdline\<lparr>cl_shadingsys := Some ''osl''\<rparr>) initial_driver)))))
     = DEVICE_CPU"
proof -
  let ?cuda = "example_cmdline\<lparr>cl_shadingsys := Some ''osl'', cl_device := Some ''cuda''\<rparr>"
  let ?cpu = "example_cmdline\<lparr>cl_shadingsys := Some ''osl''\<rparr>"
  have a: "WITH_OSL example_env \<and> ssname_of example_env ?cuda = ''osl'' \<and>
           type_from_string example_env (devicename_of ?cuda) \<noteq> DEVICE_CPU"
    by (simp add: example_defs ssname_of_def devicename_of_def set_opt_def)
  have r: "reaches_checks ?cuda"
    by (simp add: reaches_checks_def scene_path_def example_defs)
  have u: "\<not> device_unmatched example_env ?cuda"
    by (simp add: device_unmatched_def example_defs devicename_of_def set_opt_def)
  have b: "stopped (options_parse example_env ?cpu initial_driver) = None \<and>
           shadingsystem (scene_params (options (final_state
             (options_parse example_env ?cpu initial_driver)))) = OSL"
    by (simp add: example_defs options_parse_defs scene_path_def)
  from osl_requires_cpu [of example_env ?cuda initial_driver]
       osl_requires_cpu [of example_env ?cpu initial_driver] a r u b
  show ?thesis
    by simp
qed

text \<open>The claim as first stated fails: \<open>cycles --shadingsys osl --device cuda --help
  scene.xml\<close> selects OSL with a GPU, prints the usage and exits with \<open>EXIT_SUCCESS\<close>.\<close>

theorem osl_with_help:
  "WITH_OSL example_env \<and>
   ssname_of example_env (example_cmdline\<lparr>cl_shadingsys := Some ''osl'', cl_device := Some ''cuda'', cl_help := True\<rparr>) = ''osl'' \<and>
   type_from_string example_env
     (devicename_of (example_cmdline\<lparr>cl_shadingsys := Some ''osl'', cl_device := Some ''cuda'', cl_help := True\<rparr>))
     = DEVICE_OTHER 0 \<and>
   stopped (options_parse example_env
              (example_cmdline\<lparr>cl_shadingsys := Some ''osl'', cl_device := Some ''cuda'', cl_help := True\<rparr>)
              initial_driver) = Some (Exit EXIT_SUCCESS) \<and>
   new_events initial_driver (options_parse example_env
              (example_cmdline\<lparr>cl_shadingsys := Some ''osl'', cl_device := Some ''cuda'', cl_help := True\<rparr>)
              initial_driver) = [Usage ''Devices to use: cpu, cuda'']"
  by (simp add: example_defs options_parse_defs)

text \<open>
  C7. With the device-listing flag set and no argument error, \<open>options_parse\<close> prints
  "Devices:" and then one line for each \<open>DeviceInfo\<close>, in the order of
  \<open>Device::available_devices\<close>: four spaces, the description, and " (display)" for a
  display device. It then exits with \<open>EXIT_SUCCESS\<close>; no scene is loaded and no session
  is created.
\<close>

theorem list_devices:
  assumes "\<not> cl_parse cl < 0" and "cl_list cl"
  shows "stopped (options_parse E cl d) = Some (Exit EXIT_SUCCESS) \<and>
         new_events d (options_parse E cl d) =
           Stdout (''Devices:'' @ [CHR ''\<newline>'']) #
           map (\<lambda>info. Stdout (''    '' @ description info
                                 @ (if display_device info then '' (display)'' else [])
                                 @ [CHR ''\<newline>'']))
             (available_devices E) \<and>
         filter engages (new_events d (options_parse E cl d)) = []"
proof -
  have "map device_line (available_devices E) =
          map (\<lambda>info. Stdout (''    '' @ description info
                                 @ (if display_device info then '' (display)'' else [])
                                 @ [CHR ''\<newline>''])) (available_devices E)"
    by (simp add: device_line_def)
  with assms show ?thesis
    by (simp add: options_parse_def Let_def flip: device_line_def)
qed

text \<open>\<open>cycles --list-devices --samples 16 scene.xml\<close> on a machine with a CPU that can
  display and a GPU that cannot.\<close>

theorem list_devices_witness:
  "\<not> cl_parse (example_cmdline\<lparr>cl_list := True\<rparr>) < 0 \<and> cl_list (example_cmdline\<lparr>cl_list := True\<rparr>) \<and>
   stopped (options_parse example_env (example_cmdline\<lparr>cl_list := True\<rparr>) initial_driver)
     = Some (Exit EXIT_SUCCESS) \<and>
   new_events initial_driver (options_parse example_env (example_cmdline\<lparr>cl_list := True\<rparr>) initial_driver)
     = [Stdout (''Devices:'' @ [CHR ''\<newline>'']),
        Stdout (''    Intel Xeon (display)'' @ [CHR ''\<newline>'']),
        Stdout (''    GeForce'' @ [CHR ''\<newline>''])]"
proof -
  have p: "\<not> cl_parse (example_cmdline\<lparr>cl_list := True\<rparr>) < 0"
    and l: "cl_list (example_cmdline\<lparr>cl_list := True\<rparr>)"
    by (simp_all add: example_cmdline_def)
  from list_devices [OF p l, of example_env initial_driver] p l show ?thesis
    by (simp add: example_env_def example_devices_def)
qed

section \<open>Render dimensions\<close>

text \<open>
  C4. When the driver is invoked with width 0 and height 0 (no \<open>--width\<close> and no
  \<open>--height\<close>, or both given as 0) and \<open>options_parse\<close> returns, which it does through
  \<open>scene_init\<close>, then \<open>options.width\<close> and \<open>options.height\<close> are the width and height of
  the camera of the scene that was loaded.
\<close>

theorem camera_dimensions:
  assumes "set_opt (cl_width cl) 0 = 0" and "set_opt (cl_height cl) 0 = 0"
    and "stopped (options_parse E cl d) = None"
  shows "map_option cam_width (scene_camera (final_state (options_parse E cl d)))
           = Some (opt_width (options (final_state (options_parse E cl d)))) \<and>
         map_option cam_height (scene_camera (final_state (options_parse E cl d)))
           = Some (opt_height (options (final_state (options_parse E cl d))))"
proof -
  let ?d2 = "upd_options (ap_parse cl)
               (upd_options (\<lambda>opts. opts\<lparr>opt_width := 0, opt_height := 0, filepath := [],
                                        opt_session := None, quiet := False\<rparr>) d)"
  from assms(3) obtain d' where d': "options_parse E cl d = Inr d'"
    by (cases "options_parse E cl d") (auto simp: stopped_def)
  have w: "opt_width (options ?d2) = 0" and h: "opt_height (options ?d2) = 0"
    using assms(1,2) by (simp_all add: ap_parse_def Let_def fold_files_parse)
  from d' have "options_check E (devicename_of cl) (ssname_of E cl) ?d2 = Inr d'"
    using options_parse_returns by blast
  then have d3: "d' = scene_init E (opt_width (options ?d2)) (opt_height (options ?d2))
                       (fst (options_setup E (devicename_of cl) (ssname_of E cl) ?d2))"
    by (rule options_check_returns(1))
  show ?thesis
    unfolding d' final_state_simps d3 w h using scene_init_dims by blast
qed

text \<open>\<open>cycles --samples 16 scene.xml\<close>, where the camera of scene.xml is 800 by 600.\<close>

theorem camera_dimensions_witness:
  "set_opt (cl_width example_cmdline) 0 = (0::int) \<and> set_opt (cl_height example_cmdline) 0 = (0::int) \<and>
   stopped (options_parse example_env example_cmdline initial_driver) = None \<and>
   scene_camera (final_state (options_parse example_env example_cmdline initial_driver))
     = Some \<lparr>cam_width = 800, cam_height = 600\<rparr> \<and>
   opt_width (options (final_state (options_parse example_env example_cmdline initial_driver))) = 800 \<and>
   opt_height (options (final_state (options_parse example_env example_cmdline initial_driver))) = 600"
proof -
  have w: "set_opt (cl_width example_cmdline) 0 = (0::int)"
    and h: "set_opt (cl_height example_cmdline) 0 = (0::int)"
    by (simp_all add: set_opt_def example_cmdline_def)
  have r: "stopped (options_parse example_env example_cmdline initial_driver) = None"
    by (simp add: example_defs options_parse_defs scene_path_def)
  have c: "scene_camera (final_state (options_parse example_env example_cmdline initial_driver))
     = Some \<lparr>cam_width = 800, cam_height = 600\<rparr>"
    by (simp add: example_defs options_parse_defs scene_path_def scene_camera_def)
  from camera_dimensions [OF w h r] w h r c show ?thesis
    by simp
qed

section \<open>The session calls of the driver\<close>

lemma session_buffer_params_eq:
  "session_buffer_params d = d\<lparr>buffer_params := frame_of d\<rparr>"
  by (simp add: session_buffer_params_def frame_of_def)

lemma frame_of_simps [simp]:
  "frame_of (d\<lparr>trace := t\<rparr>) = frame_of d"
  "frame_of (d\<lparr>buffer_params := b\<rparr>) = frame_of d"
  "frame_of (d\<lparr>heap := h\<rparr>) = frame_of d"
  "frame_of (d\<lparr>maxlen := m\<rparr>) = frame_of d"
  "frame_of (emit es d) = frame_of d"
  by (simp_all add: frame_of_def emit_def)

lemma full_frame_frame_of [simp]:
  "full_frame (SessionReset (frame_of d) n)" "full_frame (SessionDraw (frame_of d))"
  by (simp_all add: full_frame_def frame_of_def)

lemma session_print_eq:
  "session_print str d =
     d\<lparr>maxlen := max (int (length str)) (maxlen d), trace := trace d @ printed str (maxlen d)\<rparr>"
  by (simp add: session_print_def printed_def emit_def Let_def)

lemma session_print_status_eq:
  "session_print_status d =
     (case opt_session (options d) of
        None \<Rightarrow> Inl (NullPointer, d)
      | Some s \<Rightarrow> Inr (session_print (status_line (get_sample (progress s)) (get_status (progress s))) d))"
  by (simp add: session_print_status_def status_line_def Let_def get_tile_def get_status_def
        split: option.splits)

text \<open>The reports of the render thread.\<close>

lemma update_cb_apply_update [simp]: "update_cb (apply_update u p) = update_cb p"
  by (simp add: apply_update_def)

lemma update_cb_fold_apply_update [simp]: "update_cb (fold apply_update us p) = update_cb p"
  by (induction us arbitrary: p) simp_all

lemma render_step_eq:
  assumes "opt_session (options d) = Some s"
  shows "render_step u d =
     Inr (d\<lparr>options := (options d)\<lparr>opt_session := Some (s\<lparr>progress := apply_update u (progress s)\<rparr>)\<rparr>,
           maxlen := report_maxlen (update_cb (progress s)) u (maxlen d),
           trace := trace d @ report_events (update_cb (progress s)) u (maxlen d)\<rparr>)"
proof (cases "update_cb (progress s)")
  case None
  with assms show ?thesis
    by (simp add: render_step_def Let_def upd_options_def report_maxlen_def report_events_def)
next
  case (Some cb)
  with assms show ?thesis
    by (cases cb)
       (simp_all add: render_step_def Let_def upd_options_def report_maxlen_def report_events_def
          session_print_status_eq session_print_eq emit_def get_sample_def get_status_def apply_update_def)
qed

lemma render_step_null: "opt_session (options d) = None \<Longrightarrow> render_step u d = Inr d"
  by (simp add: render_step_def)

lemma render_steps_eq:
  assumes "opt_session (options d) = Some s"
  shows "render_steps us d =
     Inr (d\<lparr>options := (options d)\<lparr>opt_session := Some (reported us s)\<rparr>,
           maxlen := reports_maxlen (update_cb (progress s)) us (maxlen d),
           trace := trace d @ reports_events (update_cb (progress s)) us (maxlen d)\<rparr>)"
  using assms
proof (induction us arbitrary: d s)
  case Nil
  have "(options d)\<lparr>opt_session := Some s\<rparr> = options d"
    using Nil by (cases "options d") simp
  then show ?case
    by (simp add: reported_def)
next
  case (Cons u us)
  let ?d1 = "d\<lparr>options := (options d)\<lparr>opt_session := Some (s\<lparr>progress := apply_update u (progress s)\<rparr>)\<rparr>,
           maxlen := report_maxlen (update_cb (progress s)) u (maxlen d),
           trace := trace d @ report_events (update_cb (progress s)) u (maxlen d)\<rparr>"
  have s1: "opt_session (options ?d1) = Some (s\<lparr>progress := apply_update u (progress s)\<rparr>)"
    by simp
  show ?case
    by (simp add: render_step_eq [OF Cons.prems] and_then_def Cons.IH [OF s1] reported_def)
qed

lemma render_steps_null: "opt_session (options d) = None \<Longrightarrow> render_steps us d = Inr d"
  by (induction us) (simp_all add: render_step_null and_then_def)

lemma render_steps_session:
  assumes "opt_session (options d) \<noteq> None"
  shows "render_steps us d =
     Inr (d\<lparr>options := (options d)\<lparr>opt_session := Some (reported us (the (opt_session (options d))))\<rparr>,
           maxlen := reports_maxlen (update_cb (progress (the (opt_session (options d))))) us (maxlen d),
           trace := trace d @ reports_events (update_cb (progress (the (opt_session (options d))))) us (maxlen d)\<rparr>)"
  using assms render_steps_eq [of d "the (opt_session (options d))" us] by auto


lemma session_init_eq:
  "session_init E d = Inr (upd_options (\<lambda>opts. opts\<lparr>opt_scene := None\<rparr>) (started E d))"
  by (simp add: session_init_def session_init_steps_def and_then_def si_new_def session_reset_def
        si_scene_def si_callback_def si_start_def si_release_def on_session_def
        session_buffer_params_eq started_session_def registered_callback_def started_def
        render_steps_session upd_options_def emit_def Let_def frame_of_def)

lemma session_reset_eq:
  "session_reset d =
     (case opt_session (options d) of
        None \<Rightarrow> Inl (NullPointer, d\<lparr>buffer_params := frame_of d\<rparr>)
      | Some s \<Rightarrow>
          Inr (d\<lparr>options := (options d)\<lparr>opt_session :=
                     Some (Session_reset (frame_of d) (samples (session_params (options d))) s)\<rparr>,
                buffer_params := frame_of d,
                trace := trace d @ [SessionReset (frame_of d) (samples (session_params (options d)))]\<rparr>))"
  by (simp add: session_reset_def on_session_def session_buffer_params_eq upd_options_def emit_def
        Let_def frame_of_def split: option.splits)

lemma session_exit_eq:
  "session_exit d =
     (let es1 = (case opt_session (options d) of None \<Rightarrow> [] | Some s \<Rightarrow> [SessionDelete]);
          h1 = (case opt_session (options d) of None \<Rightarrow> heap d | Some s \<Rightarrow> Session_dtor s (heap d));
          es2 = (case opt_scene (options d) of None \<Rightarrow> [] | Some p \<Rightarrow> [SceneDelete p]);
          h2 = (case opt_scene (options d) of None \<Rightarrow> h1 | Some p \<Rightarrow> h1(p := None));
          fin = background (session_params (options d)) \<and> \<not> quiet (options d)
      in d\<lparr>options := (options d)\<lparr>opt_session := None, opt_scene := None\<rparr>,
           heap := h2,
           maxlen := (if fin then max 19 (maxlen d) else maxlen d),
           trace := trace d @ es1 @ es2 @ finish_events d\<rparr>)"
  by (cases "opt_session (options d)"; cases "opt_scene (options d)")
     (simp_all add: session_exit_def session_print_eq upd_options_def emit_def Let_def finish_events_def)

lemma grows_byI: "trace d' = trace d @ es \<Longrightarrow> list_all P es \<Longrightarrow> grows_by P d d'"
  by (simp add: grows_by_def)

lemma grows_byD: "grows_by P d d' \<Longrightarrow> trace d' = trace d @ drop (length (trace d)) (trace d')"
  unfolding grows_by_def by (metis append_take_drop_id)

lemma grows_by_refl [simp]: "grows_by P d d"
  by (simp add: grows_by_def)

lemma grows_by_trans:
  assumes "grows_by P d d'" and "grows_by P d' d''"
  shows "grows_by P d d''"
proof -
  obtain es where es: "trace d' = trace d @ es" "list_all P es"
    using assms(1) grows_byD unfolding grows_by_def by blast
  obtain fs where fs: "trace d'' = trace d' @ fs" "list_all P fs"
    using assms(2) grows_byD unfolding grows_by_def by blast
  from es fs have "trace d'' = trace d @ (es @ fs)" "list_all P (es @ fs)"
    by simp_all
  then show ?thesis
    by (rule grows_byI)
qed

lemma grows_by_new_events:
  "grows_by P d (final_state r) \<Longrightarrow> list_all P (new_events d r)"
  by (simp add: grows_by_def new_events_def)

lemma full_frame_simps [simp]:
  "full_frame (Stdout s)" "full_frame (Stderr s)" "full_frame Flush" "full_frame (Usage s)"
  "full_frame PathInit" "full_frame (SceneNew p sp dv)" "full_frame (XmlReadFile p f)"
  "full_frame (SceneDelete p)" "full_frame (SessionNew sp')" "full_frame (SessionSetScene po)"
  "full_frame (SetUpdateCallback cb)" "full_frame SessionStart" "full_frame SessionWait"
  "full_frame SessionWaitReturn" "full_frame ViewRedraw"
  "full_frame (SetCancel m)" "full_frame SessionDelete" "full_frame ViewDisplayInfo"
  "full_frame ViewDisplayHelp" "full_frame (ViewMainLoop t w h)"
  "full_frame (device_line info)" "full_frame (usage E)"
  by (simp_all add: full_frame_def device_line_def usage_def)

lemma is_SceneDelete_simps [simp]:
  "\<not> is_SceneDelete (Stdout s)" "\<not> is_SceneDelete Flush"
  "\<not> is_SceneDelete (SessionNew sp')" "\<not> is_SceneDelete (SessionSetScene po)"
  "\<not> is_SceneDelete (SessionReset bp n)" "\<not> is_SceneDelete (SessionDraw bp)"
  "\<not> is_SceneDelete (SetUpdateCallback cb)" "\<not> is_SceneDelete SessionStart" "\<not> is_SceneDelete SessionWait"
  "\<not> is_SceneDelete SessionWaitReturn" "\<not> is_SceneDelete ViewRedraw"
  "\<not> is_SceneDelete (SetCancel m)" "\<not> is_SceneDelete SessionDelete" "\<not> is_SceneDelete ViewDisplayInfo"
  "\<not> is_SceneDelete ViewDisplayHelp" "is_SceneDelete (SceneDelete p)"
  by (simp_all add: is_SceneDelete_def)

lemma render_output_simps [simp]:
  "render_output (Stdout s)" "render_output Flush" "render_output ViewRedraw"
  "\<not> render_output (SessionNew sp')" "\<not> render_output (SessionSetScene po)"
  "\<not> render_output (SessionReset bp n)" "\<not> render_output (SetUpdateCallback cb)"
  "\<not> render_output SessionStart" "\<not> render_output SessionWait"
  "\<not> render_output SessionWaitReturn" "\<not> render_output SessionDelete"
  by (simp_all add: render_output_def)

lemma engages_more_simps [simp]:
  "\<not> engages ViewRedraw" "engages (SessionNew sp')" "engages (SessionSetScene po)"
  "engages (SessionReset bp n)" "engages (SetUpdateCallback cb)" "engages SessionStart"
  "engages SessionWait" "engages SessionWaitReturn" "engages SessionDelete"
  by (simp_all add: engages_def)

text \<open>What the update callbacks write: output only.\<close>

lemma render_output_plain:
  assumes "render_output e"
  shows "full_frame e" "\<not> is_SceneDelete e" "\<not> engages e"
    "e \<noteq> SessionDelete" "e \<noteq> SessionWaitReturn" "e \<noteq> SessionWait" "e \<noteq> SessionStart"
  using assms by (cases e; simp add: render_output_def)+

lemma list_all_printed [simp]: "list_all render_output (printed str m)"
  by (simp add: printed_def list_all_iff)

lemma list_all_report_events [simp]: "list_all render_output (report_events cb u m)"
  by (cases cb; simp add: report_events_def split: callback.splits)

lemma list_all_reports_events [simp]: "list_all render_output (reports_events cb us m)"
  by (induction us arbitrary: m) simp_all

lemma list_all_finish_events [simp]: "list_all render_output (finish_events d)"
  by (simp add: finish_events_def)

lemma list_all_render_output:
  assumes "list_all render_output es"
  shows "list_all full_frame es" "list_all (\<lambda>e. \<not> is_SceneDelete e) es" "filter engages es = []"
    "SessionDelete \<notin> set es" "SessionWaitReturn \<notin> set es"
    "list_all (\<lambda>e. engages e \<or> render_output e) es"
  using assms render_output_plain by (auto simp: list_all_iff filter_empty_conv)

lemmas render_events_plain =
  list_all_render_output [OF list_all_printed]
  list_all_render_output [OF list_all_reports_events]
  list_all_render_output [OF list_all_finish_events]
  list_all_render_output [OF list_all_report_events]

text \<open>What each callback adds to the trace.\<close>

lemma trace_started:
  "trace (started E d) =
     trace d @
       [SessionNew (session_params (options d)),
        SessionReset (frame_of d) (samples (session_params (options d))),
        SessionSetScene (opt_scene (options d))]
       @ (case registered_callback E d of None \<Rightarrow> [] | Some cb \<Rightarrow> [SetUpdateCallback cb])
       @ [SessionStart]
       @ reports_events (update_cb (progress (started_session E d))) (start_updates E) (maxlen d)"
  by (simp add: started_def)

lemma session_init_grows:
  "grows_by full_frame d (final_state (session_init E d))"
  "grows_by (\<lambda>e. \<not> is_SceneDelete e) d (final_state (session_init E d))"
  "opt_scene (options (final_state (session_init E d))) = None"
  by (auto simp: session_init_eq trace_started render_events_plain intro!: grows_byI split: option.splits)

lemma session_exit_grows:
  "grows_by full_frame d (session_exit d)"
  "opt_scene (options d) = None \<Longrightarrow> grows_by (\<lambda>e. \<not> is_SceneDelete e) d (session_exit d)"
  "opt_scene (options (session_exit d)) = None"
  by (auto simp: session_exit_eq Let_def render_events_plain intro!: grows_byI split: option.splits)

lemma session_reset_grows:
  "grows_by full_frame d (final_state (session_reset d))"
  "grows_by (\<lambda>e. \<not> is_SceneDelete e) d (final_state (session_reset d))"
  "opt_scene (options (final_state (session_reset d))) = opt_scene (options d)"
  by (auto simp: session_reset_eq intro!: grows_byI split: option.splits)

lemma resize_grows:
  "grows_by full_frame d (final_state (resize w h d))"
  "grows_by (\<lambda>e. \<not> is_SceneDelete e) d (final_state (resize w h d))"
  "opt_scene (options (final_state (resize w h d))) = opt_scene (options d)"
proof -
  let ?d1 = "upd_options (\<lambda>opts. opts\<lparr>opt_width := w, opt_height := h\<rparr>) d"
  have r: "final_state (resize w h d) = (if opt_session (options ?d1) \<noteq> None
             then final_state (session_reset ?d1) else ?d1)"
    by (simp add: resize_def Let_def)
  show "grows_by full_frame d (final_state (resize w h d))"
    using session_reset_grows(1) [of ?d1] unfolding r by (simp add: grows_by_def)
  show "grows_by (\<lambda>e. \<not> is_SceneDelete e) d (final_state (resize w h d))"
    using session_reset_grows(2) [of ?d1] unfolding r by (simp add: grows_by_def)
  show "opt_scene (options (final_state (resize w h d))) = opt_scene (options d)"
    using session_reset_grows(3) [of ?d1] unfolding r by simp
qed

lemma display_grows:
  "grows_by full_frame d (final_state (display d))"
  "grows_by (\<lambda>e. \<not> is_SceneDelete e) d (final_state (display d))"
  "opt_scene (options (final_state (display d))) = opt_scene (options d)"
  by (auto simp: display_def display_info_def on_session_def and_then_def session_buffer_params_eq
        Let_def upd_options_def emit_def intro!: grows_byI split: option.splits)

lemma keyboard_grows:
  "grows_by full_frame d (final_state (keyboard k d))"
  "grows_by (\<lambda>e. \<not> is_SceneDelete e) d (final_state (keyboard k d))"
  "opt_scene (options (final_state (keyboard k d))) = opt_scene (options d)"
  using session_reset_grows [of d]
  by (auto simp: keyboard_def on_session_def upd_options_def emit_def
        intro!: grows_byI split: option.splits)

lemma render_step_grows:
  "grows_by full_frame d (final_state (render_step u d))"
  "grows_by (\<lambda>e. \<not> is_SceneDelete e) d (final_state (render_step u d))"
  "opt_scene (options (final_state (render_step u d))) = opt_scene (options d)"
  by (cases "opt_session (options d)";
      auto simp: render_step_null render_step_eq render_events_plain intro!: grows_byI)+

lemma gui_callback_grows:
  "grows_by full_frame d (final_state (gui_callback E c d))"
  "opt_scene (options d) = None \<Longrightarrow>
     grows_by (\<lambda>e. \<not> is_SceneDelete e) d (final_state (gui_callback E c d)) \<and>
     opt_scene (options (final_state (gui_callback E c d))) = None"
  by (cases c; simp add: session_init_grows session_exit_grows resize_grows display_grows
        keyboard_grows render_step_grows)+

lemma run_calls_grows:
  "grows_by full_frame d (final_state (run_calls E cs d))"
proof (induction cs arbitrary: d)
  case Nil
  show ?case by simp
next
  case (Cons c cs)
  show ?case
  proof (cases "gui_callback E c d")
    case (Inl a)
    with gui_callback_grows(1) [of d E c] show ?thesis
      by (cases a) (simp add: and_then_def)
  next
    case (Inr d')
    with gui_callback_grows(1) [of d E c] have "grows_by full_frame d d'"
      by simp
    moreover have "grows_by full_frame d' (final_state (run_calls E cs d'))"
      by (rule Cons.IH)
    ultimately show ?thesis
      using Inr by (simp add: and_then_def grows_by_trans)
  qed
qed


lemma options_parse_grows:
  "grows_by full_frame d (final_state (options_parse E cl d))"
proof -
  let ?d2 = "upd_options (ap_parse cl)
               (upd_options (\<lambda>opts. opts\<lparr>opt_width := 0, opt_height := 0, filepath := [],
                                        opt_session := None, quiet := False\<rparr>) d)"
  have "grows_by full_frame ?d2 (final_state (options_check E (devicename_of cl) (ssname_of E cl) ?d2))"
    by (auto simp: options_check_cases Let_def scene_init_trace intro!: grows_byI)
  then have "grows_by full_frame d (final_state (options_check E (devicename_of cl) (ssname_of E cl) ?d2))"
    by (simp add: grows_by_def)
  then show ?thesis
    by (auto simp: options_parse_def Let_def list_all_iff intro!: grows_byI)
qed

section \<open>Background mode\<close>

lemma session_wait_eq:
  assumes "opt_session (options d) = Some s"
  shows "session_wait E d =
     (let d1 = d\<lparr>options := (options d)\<lparr>opt_session := Some (reported (wait_updates E) s)\<rparr>,
                 maxlen := reports_maxlen (update_cb (progress s)) (wait_updates E) (maxlen d),
                 trace := trace d @ SessionWait # reports_events (update_cb (progress s)) (wait_updates E) (maxlen d)\<rparr>
      in if wait_returns E
         then Inr (d1\<lparr>options := (options d1)\<lparr>opt_session := Some (Session_wait (reported (wait_updates E) s))\<rparr>,
                      trace := trace d1 @ [SessionWaitReturn]\<rparr>)
         else Inl (Blocked, d1))"
proof -
  have "opt_session (options (emit [SessionWait] d)) = Some s"
    using assms by simp
  from render_steps_eq [OF this, of "wait_updates E"] assms show ?thesis
    by (simp add: session_wait_def and_then_def on_session_def upd_options_def emit_def Let_def)
qed

lemma update_cb_reported [simp]: "update_cb (progress (reported us s)) = update_cb (progress s)"
  by (simp add: reported_def)

lemma sess_scene_reported [simp]: "sess_scene (reported us s) = sess_scene s"
  by (simp add: reported_def)

lemma sess_state_reported [simp]: "sess_state (reported us s) = sess_state s"
  by (simp add: reported_def)

lemma started_session_facts [simp]:
  "sess_scene (started_session E d) = opt_scene (options d)"
  "sess_state (started_session E d) = Running"
  by (simp_all add: started_session_def Session_start_def Session_reset_def Let_def split: option.splits)

lemma started_facts [simp]:
  "opt_session (options (started E d)) = Some (reported (start_updates E) (started_session E d))"
  "opt_scene (options (started E d)) = opt_scene (options d)"
  "heap (started E d) = heap d"
  "session_params (options (started E d)) = session_params (options d)"
  "quiet (options (started E d)) = quiet (options d)"
  "maxlen (started E d) = reports_maxlen (update_cb (progress (started_session E d))) (start_updates E) (maxlen d)"
  by (simp_all add: started_def)

lemma main_background_eq:
  "main_background E d =
     and_then (session_wait E (upd_options (\<lambda>opts. opts\<lparr>opt_scene := None\<rparr>) (started E d)))
       (\<lambda>d2. Inr (session_exit d2))"
  by (simp add: main_background_def session_init_eq and_then_def)

lemma main_background_blocked:
  assumes "\<not> wait_returns E"
  shows "stopped (main_background E d) = Some Blocked"
    and "trace (final_state (main_background E d)) = trace d @ run_up_to_wait E d"
    and "heap (final_state (main_background E d)) = heap d"
  using assms
  by (simp_all add: main_background_eq and_then_def Let_def run_up_to_wait_def trace_started
        session_wait_eq [of _ "reported (start_updates E) (started_session E d)"])

lemma main_background_returns:
  assumes "wait_returns E"
  shows "stopped (main_background E d) = None"
    and "trace (final_state (main_background E d)) =
           trace d @ run_up_to_wait E d @ SessionWaitReturn # SessionDelete #
           (if background (session_params (options d)) \<and> \<not> quiet (options d)
            then printed ''Finished Rendering.''
                   (reports_maxlen (update_cb (progress (started_session E d))) (wait_updates E)
                      (reports_maxlen (update_cb (progress (started_session E d))) (start_updates E) (maxlen d)))
                 @ [Stdout [CHR ''\<newline>'']]
            else [])"
    and "heap (final_state (main_background E d)) = released (opt_scene (options d)) (heap d)"
    and "opt_scene (options (final_state (main_background E d))) = None"
    and "opt_session (options (final_state (main_background E d))) = None"
  using assms
  by (simp_all add: main_background_eq and_then_def Let_def run_up_to_wait_def trace_started
        session_wait_eq [of _ "reported (start_updates E) (started_session E d)"]
        session_exit_eq finish_events_def Session_dtor_def released_def Session_wait_def)

lemma run_up_to_wait_facts:
  "filter engages (run_up_to_wait E d) =
     [SessionNew (session_params (options d)),
      SessionReset (frame_of d) (samples (session_params (options d))),
      SessionSetScene (opt_scene (options d))]
     @ (case registered_callback E d of None \<Rightarrow> [] | Some cb \<Rightarrow> [SetUpdateCallback cb])
     @ [SessionStart, SessionWait]"
  "list_all (\<lambda>e. engages e \<or> render_output e) (run_up_to_wait E d)"
  "SessionDelete \<notin> set (run_up_to_wait E d)"
  "SessionWaitReturn \<notin> set (run_up_to_wait E d)"
  "list_all full_frame (run_up_to_wait E d)"
  "list_all (\<lambda>e. \<not> is_SceneDelete e) (run_up_to_wait E d)"
  by (auto simp: run_up_to_wait_def render_events_plain split: option.splits)

lemma takeWhile_stop: "\<not> P y \<Longrightarrow> takeWhile P (xs @ y # ys) = takeWhile P xs"
  by (induction xs) simp_all

lemma main_background_grows:
  "grows_by full_frame d (final_state (main_background E d))"
  "grows_by (\<lambda>e. \<not> is_SceneDelete e) d (final_state (main_background E d))"
  "grows_by (\<lambda>e. engages e \<or> render_output e) d (final_state (main_background E d))"
proof -
  note f = run_up_to_wait_facts [of E d]
  show "grows_by full_frame d (final_state (main_background E d))"
    using f(5) by (cases "wait_returns E")
      (auto simp: main_background_returns(2) main_background_blocked(2) render_events_plain
         intro!: grows_byI)
  show "grows_by (\<lambda>e. \<not> is_SceneDelete e) d (final_state (main_background E d))"
    using f(6) by (cases "wait_returns E")
      (auto simp: main_background_returns(2) main_background_blocked(2) render_events_plain
         intro!: grows_byI)
  show "grows_by (\<lambda>e. engages e \<or> render_output e) d (final_state (main_background E d))"
    using f(2) by (cases "wait_returns E")
      (auto simp: main_background_returns(2) main_background_blocked(2) render_events_plain
         intro!: grows_byI)
qed

lemma main_background_order:
  "filter engages (new_events d (main_background E d)) =
     [SessionNew (session_params (options d)),
      SessionReset (frame_of d) (samples (session_params (options d))),
      SessionSetScene (opt_scene (options d))]
     @ (case registered_callback E d of None \<Rightarrow> [] | Some cb \<Rightarrow> [SetUpdateCallback cb])
     @ [SessionStart, SessionWait]
     @ (if wait_returns E then [SessionWaitReturn, SessionDelete] else [])"
  "SessionDelete \<notin> set (takeWhile (\<lambda>e. e \<noteq> SessionWaitReturn) (new_events d (main_background E d)))"
proof -
  note f = run_up_to_wait_facts [of E d]
  show "filter engages (new_events d (main_background E d)) =
     [SessionNew (session_params (options d)),
      SessionReset (frame_of d) (samples (session_params (options d))),
      SessionSetScene (opt_scene (options d))]
     @ (case registered_callback E d of None \<Rightarrow> [] | Some cb \<Rightarrow> [SetUpdateCallback cb])
     @ [SessionStart, SessionWait]
     @ (if wait_returns E then [SessionWaitReturn, SessionDelete] else [])"
    using f(1) by (cases "wait_returns E")
      (simp_all add: new_events_def main_background_returns(2) main_background_blocked(2)
         render_events_plain)
  show "SessionDelete \<notin> set (takeWhile (\<lambda>e. e \<noteq> SessionWaitReturn) (new_events d (main_background E d)))"
  proof (cases "wait_returns E")
    case True
    have "takeWhile (\<lambda>e. e \<noteq> SessionWaitReturn) (new_events d (main_background E d))
            = takeWhile (\<lambda>e. e \<noteq> SessionWaitReturn) (run_up_to_wait E d)"
      using True by (simp add: new_events_def main_background_returns(2) takeWhile_stop)
    with f(3) show ?thesis
      by (auto dest: set_takeWhileD)
  next
    case False
    with f(3) show ?thesis
      by (auto simp: new_events_def main_background_blocked(2) dest: set_takeWhileD)
  qed
qed

section \<open>The buffer parameters in a whole run\<close>

lemma main_view_grows:
  "grows_by full_frame d (final_state (main_view E d))"
proof -
  let ?d1 = "emit [ViewMainLoop (''Cycles: '' @ path_filename E (filepath (options d)))
                     (opt_width (options d)) (opt_height (options d))] d"
  have "grows_by full_frame d ?d1"
    by (auto intro!: grows_byI)
  moreover have "grows_by full_frame ?d1 (final_state (run_calls E (view_calls E) ?d1))"
    by (rule run_calls_grows)
  ultimately show ?thesis
    unfolding main_view_def Let_def by (rule grows_by_trans)
qed

lemma main_grows:
  "grows_by full_frame d (final_state (main E cl d))"
proof -
  let ?d0 = "emit [PathInit] d"
  have a: "grows_by full_frame d ?d0"
    by (auto intro!: grows_byI)
  have b: "grows_by full_frame ?d0 (final_state (options_parse E cl ?d0))"
    by (rule options_parse_grows)
  show ?thesis
  proof (cases "options_parse E cl ?d0")
    case (Inl x)
    with a b show ?thesis
      by (cases x) (auto simp: main_def and_then_def intro: grows_by_trans)
  next
    case (Inr d1)
    with a b have "grows_by full_frame d d1"
      by (auto intro: grows_by_trans)
    moreover have "grows_by full_frame d1 (final_state (main_view E d1))"
      "grows_by full_frame d1 (final_state (main_background E d1))"
      by (rule main_view_grows, rule main_background_grows(1))
    ultimately show ?thesis
      using Inr by (auto simp: main_def and_then_def intro: grows_by_trans)
  qed
qed

text \<open>
  C8. Every \<open>BufferParams\<close> value that the driver passes to the session has
  \<open>full_width = width\<close> and \<open>full_height = height\<close>: this holds for the value that
  \<open>session_buffer_params\<close> builds, for every \<open>reset\<close> and \<open>draw\<close> issued by
  \<open>session_init\<close>, \<open>resize\<close>, \<open>keyboard\<close> and \<open>display\<close> from any state, for any
  sequence of gui callbacks, and for a whole run of \<open>main\<close>.
\<close>

theorem full_frame_always:
  "full_width (buffer_params (session_buffer_params d)) = bp_width (buffer_params (session_buffer_params d)) \<and>
   full_height (buffer_params (session_buffer_params d)) = bp_height (buffer_params (session_buffer_params d)) \<and>
   list_all full_frame (new_events d (session_init E d)) \<and>
   list_all full_frame (new_events d (resize w h d)) \<and>
   list_all full_frame (new_events d (keyboard k d)) \<and>
   list_all full_frame (new_events d (display d)) \<and>
   list_all full_frame (new_events d (run_calls E cs d)) \<and>
   list_all full_frame (new_events d (main E cl d))"
  by (simp add: session_buffer_params_def grows_by_new_events session_init_grows resize_grows
        keyboard_grows display_grows run_calls_grows main_grows)

text \<open>A run of \<open>cycles --samples 16 scene.xml\<close>: the one \<open>reset\<close> is for 800 by 600 out
  of 800 by 600.\<close>

theorem full_frame_always_witness:
  "list_all full_frame (new_events initial_driver (main example_env example_cmdline initial_driver)) \<and>
   new_events loaded_driver (session_init example_env loaded_driver) ! 1 =
     SessionReset \<lparr>bp_width = 800, bp_height = 600, full_width = 800, full_height = 600\<rparr> 16"
proof -
  have "new_events loaded_driver (session_init example_env loaded_driver) ! 1 =
     SessionReset \<lparr>bp_width = 800, bp_height = 600, full_width = 800, full_height = 600\<rparr> 16"
    by (simp add: session_init_eq trace_started frame_of_def loaded_driver_def example_defs
          options_parse_defs scene_path_def)
  with full_frame_always [of initial_driver example_env 0 0 0 "[]" example_cmdline] show ?thesis
    by simp
qed

section \<open>Order of the session calls\<close>

text \<open>
  C3. When \<open>options_parse\<close> returns and the run is in background mode (the build has no
  gui, or \<open>--background\<close> was given), the calls that \<open>main\<close> then makes on the session
  are, in this order: construct the session, \<open>reset\<close> it with the buffer parameters and
  the target sample count, attach the scene, register the update callback (if any),
  \<open>start()\<close>, \<open>wait()\<close>, and, if and when \<open>wait()\<close> returns, the destruction of the
  session in \<open>session_exit\<close>. Everything else in the trace is output of the update
  callback and of \<open>session_exit\<close>. The session is not destroyed before \<open>wait()\<close> has
  returned; if \<open>wait()\<close> never returns, it is never destroyed and \<open>main\<close> does not
  return.
\<close>

theorem background_order:
  assumes "stopped (options_parse E cl (emit [PathInit] d0)) = None"
    and "\<not> WITH_CYCLES_STANDALONE_GUI E \<or>
         background (session_params (options (final_state (options_parse E cl (emit [PathInit] d0)))))"
  shows "(let d1 = final_state (options_parse E cl (emit [PathInit] d0))
          in stopped (main E cl d0) = (if wait_returns E then None else Some Blocked) \<and>
             filter engages (new_events d1 (main E cl d0)) =
               [SessionNew (session_params (options d1)),
                SessionReset (frame_of d1) (samples (session_params (options d1))),
                SessionSetScene (opt_scene (options d1))]
               @ (case registered_callback E d1 of None \<Rightarrow> [] | Some cb \<Rightarrow> [SetUpdateCallback cb])
               @ [SessionStart, SessionWait]
               @ (if wait_returns E then [SessionWaitReturn, SessionDelete] else []) \<and>
             list_all (\<lambda>e. engages e \<or> render_output e) (new_events d1 (main E cl d0)) \<and>
             SessionDelete \<notin> set (takeWhile (\<lambda>e. e \<noteq> SessionWaitReturn) (new_events d1 (main E cl d0))))"
proof -
  from assms(1) obtain d1 where d1: "options_parse E cl (emit [PathInit] d0) = Inr d1"
    by (cases "options_parse E cl (emit [PathInit] d0)") (auto simp: stopped_def)
  with assms(2) have m: "main E cl d0 = main_background E d1"
    by (auto simp: main_def and_then_def)
  have s: "stopped (main_background E d1) = (if wait_returns E then None else Some Blocked)"
    by (simp add: main_background_returns(1) main_background_blocked(1))
  show ?thesis
    unfolding m d1 final_state_simps Let_def
    using s main_background_order [of d1 E]
      grows_by_new_events [OF main_background_grows(3), of d1 E]
    by simp
qed

lemma example_parse:
  "stopped (options_parse example_env example_cmdline (emit [PathInit] initial_driver)) = None"
  "options (final_state (options_parse example_env example_cmdline (emit [PathInit] initial_driver)))
     = \<lparr>opt_session = None, opt_scene = Some 0, filepath = ''scene.xml'', opt_width = 800,
        opt_height = 600, scene_params = \<lparr>shadingsystem = SVM\<rparr>,
        session_params = \<lparr>device = example_devices ! 0, background = True, progressive = False,
                          samples = 16, output_path = [], threads = 0\<rparr>,
        quiet = False, show_help = False\<rparr>"
  "maxlen (final_state (options_parse example_env example_cmdline (emit [PathInit] initial_driver))) = 0"
  "trace (final_state (options_parse example_env example_cmdline (emit [PathInit] initial_driver)))
     = [PathInit, SceneNew 0 \<lparr>shadingsystem = SVM\<rparr> (example_devices ! 0), XmlReadFile 0 ''scene.xml'']"
  by (simp_all add: example_defs options_parse_defs scene_path_def)

lemma example_loaded:
  "options loaded_driver
     = \<lparr>opt_session = None, opt_scene = Some 0, filepath = ''scene.xml'', opt_width = 800,
        opt_height = 600, scene_params = \<lparr>shadingsystem = SVM\<rparr>,
        session_params = \<lparr>device = example_devices ! 0, background = True, progressive = False,
                          samples = 16, output_path = [], threads = 0\<rparr>,
        quiet = False, show_help = False\<rparr>"
  "maxlen loaded_driver = 0"
  "heap loaded_driver 0 \<noteq> None"
  "trace loaded_driver
     = [SceneNew 0 \<lparr>shadingsystem = SVM\<rparr> (example_devices ! 0), XmlReadFile 0 ''scene.xml'']"
  by (simp_all add: loaded_driver_def example_defs options_parse_defs scene_path_def)

lemma example_env_fields:
  "WITH_OSL example_env" "\<not> WITH_CYCLES_STANDALONE_GUI example_env"
  "start_updates example_env = []"
  "wait_updates example_env =
     [\<lparr>new_sample = 1, new_tile = 0, new_total_time = 2, new_sample_time = 2,
       new_status = ''Path Tracing'', new_substatus = ''Tile 1/4''\<rparr>,
      \<lparr>new_sample = 16, new_tile = 3, new_total_time = 40, new_sample_time = 2,
       new_status = ''Done'', new_substatus = []\<rparr>]"
  "wait_returns example_env"
  "update_cb (progress (Session_ctor example_env sp)) = None"
  "sess_state (Session_ctor example_env sp) = Uninitialized"
  by (simp_all add: example_env_def)

lemma example_run_up_to_wait:
  "run_up_to_wait example_env
     (final_state (options_parse example_env example_cmdline (emit [PathInit] initial_driver))) =
     [SessionNew \<lparr>device = example_devices ! 0, background = True, progressive = False, samples = 16,
                  output_path = [], threads = 0\<rparr>,
      SessionReset \<lparr>bp_width = 800, bp_height = 600, full_width = 800, full_height = 600\<rparr> 16,
      SessionSetScene (Some 0),
      SetUpdateCallback session_print_status_cb,
      SessionStart,
      SessionWait,
      Stdout (CHR 0x0D # ''Sample 1   Path Tracing: Tile 1/4''), Flush,
      Stdout (CHR 0x0D # ''Sample 16   Done'')]
     @ replicate 17 (Stdout '' '') @ [Flush]"
  by (simp add: run_up_to_wait_def example_parse frame_of_def registered_callback_def
        started_session_def Session_start_def Session_reset_def set_update_callback_def Let_def
        report_events_def report_maxlen_def status_line_def printed_def string_of_int_def digit_char_def
        example_env_fields)

lemma options_parse_cong:
  assumes "WITH_OSL E' = WITH_OSL E"
    and "WITH_CYCLES_STANDALONE_GUI E' = WITH_CYCLES_STANDALONE_GUI E"
    and "available_types E' = available_types E"
    and "available_devices E' = available_devices E"
    and "type_from_string E' = type_from_string E"
    and "string_from_type E' = string_from_type E"
    and "Scene_ctor E' = Scene_ctor E"
    and "xml_read_file E' = xml_read_file E"
  shows "options_parse E' cl d = options_parse E cl d"
  unfolding options_parse_def options_check_def options_setup_def scene_init_def new_Scene_def
    xml_read_def usage_def ssname_of_def assms
  by (rule refl)

lemma options_parse_wait_returns [simp]:
  "options_parse (E\<lparr>wait_returns := b\<rparr>) cl d = options_parse E cl d"
  by (rule options_parse_cong) simp_all

text \<open>\<open>cycles --samples 16 scene.xml\<close> in a build without gui, with a render that ends
  and with one that does not.\<close>

theorem background_order_witness:
  "stopped (options_parse example_env example_cmdline (emit [PathInit] initial_driver)) = None \<and>
   \<not> WITH_CYCLES_STANDALONE_GUI example_env \<and>
   wait_returns example_env \<and>
   stopped (main example_env example_cmdline initial_driver) = None \<and>
   filter engages
     (new_events (final_state (options_parse example_env example_cmdline (emit [PathInit] initial_driver)))
        (main example_env example_cmdline initial_driver)) =
     [SessionNew \<lparr>device = example_devices ! 0, background = True, progressive = False, samples = 16,
                  output_path = [], threads = 0\<rparr>,
      SessionReset \<lparr>bp_width = 800, bp_height = 600, full_width = 800, full_height = 600\<rparr> 16,
      SessionSetScene (Some 0),
      SetUpdateCallback session_print_status_cb,
      SessionStart, SessionWait, SessionWaitReturn, SessionDelete] \<and>
   stopped (main (example_env\<lparr>wait_returns := False\<rparr>) example_cmdline initial_driver) = Some Blocked \<and>
   filter engages
     (new_events (final_state (options_parse example_env example_cmdline (emit [PathInit] initial_driver)))
        (main (example_env\<lparr>wait_returns := False\<rparr>) example_cmdline initial_driver)) =
     [SessionNew \<lparr>device = example_devices ! 0, background = True, progressive = False, samples = 16,
                  output_path = [], threads = 0\<rparr>,
      SessionReset \<lparr>bp_width = 800, bp_height = 600, full_width = 800, full_height = 600\<rparr> 16,
      SessionSetScene (Some 0),
      SetUpdateCallback session_print_status_cb,
      SessionStart, SessionWait]"
proof -
  let ?E' = "example_env\<lparr>wait_returns := False\<rparr>"
  note p = example_parse(1)
  have g: "\<not> WITH_CYCLES_STANDALONE_GUI example_env" and w: "wait_returns example_env"
    by (simp_all add: example_env_fields)
  have p': "stopped (options_parse ?E' example_cmdline (emit [PathInit] initial_driver)) = None"
    using p by simp
  have g': "\<not> WITH_CYCLES_STANDALONE_GUI ?E'" and w': "\<not> wait_returns ?E'"
    using g by simp_all
  from background_order [OF p disjI1 [OF g]] background_order [OF p' disjI1 [OF g']] p g w w'
  show ?thesis
    by (simp add: Let_def example_parse frame_of_def registered_callback_def)
qed

text \<open>The whole output of that run: the two status lines of the update callback come
  between the call of \<open>wait()\<close> and its return, and the longer one decides the padding of
  the later lines.\<close>

lemma example_run:
  "new_events (final_state (options_parse example_env example_cmdline (emit [PathInit] initial_driver)))
     (main example_env example_cmdline initial_driver) =
     [SessionNew \<lparr>device = example_devices ! 0, background = True, progressive = False, samples = 16,
                  output_path = [], threads = 0\<rparr>,
      SessionReset \<lparr>bp_width = 800, bp_height = 600, full_width = 800, full_height = 600\<rparr> 16,
      SessionSetScene (Some 0),
      SetUpdateCallback session_print_status_cb,
      SessionStart,
      SessionWait,
      Stdout (CHR 0x0D # ''Sample 1   Path Tracing: Tile 1/4''), Flush,
      Stdout (CHR 0x0D # ''Sample 16   Done'')]
     @ replicate 17 (Stdout '' '')
     @ [Flush, SessionWaitReturn, SessionDelete, Stdout (CHR 0x0D # ''Finished Rendering.'')]
     @ replicate 14 (Stdout '' '')
     @ [Flush, Stdout [CHR ''\<newline>'']]"
proof -
  let ?d1 = "final_state (options_parse example_env example_cmdline (emit [PathInit] initial_driver))"
  have d1: "options_parse example_env example_cmdline (emit [PathInit] initial_driver) = Inr ?d1"
    using example_parse(1) by (cases "options_parse example_env example_cmdline (emit [PathInit] initial_driver)")
      (auto simp: stopped_def)
  have m: "main example_env example_cmdline initial_driver = main_background example_env ?d1"
    unfolding main_def by (subst d1) (simp add: and_then_def example_env_fields)
  have cb: "update_cb (progress (started_session example_env ?d1)) = Some session_print_status_cb"
    by (simp add: started_session_def registered_callback_def example_parse Session_start_def
          Session_reset_def set_update_callback_def Let_def)
  show ?thesis
    unfolding m new_events_def
    using main_background_returns(2) [OF example_env_fields(5), of ?d1]
    by (simp add: example_run_up_to_wait cb example_parse example_env_fields printed_def
          report_maxlen_def status_line_def string_of_int_def digit_char_def)
qed

section \<open>Ownership of the scene\<close>








section \<open>The progress callback\<close>

lemma registered_callback_active:
  "registered_callback E d = Some cb \<Longrightarrow> update_cb (progress (started_session E d)) = Some cb"
  by (simp add: started_session_def Session_start_def set_update_callback_def Let_def)

lemma session_print_status_out:
  assumes "opt_session (options d) = Some s"
  shows "stopped (session_print_status d) = None"
    and "new_events d (session_print_status d) =
           printed (status_line (get_sample (progress s)) (get_status (progress s))) (maxlen d)"
  using assms by (simp_all add: session_print_status_eq session_print_eq)

text \<open>
  C6. \<open>session_print_status\<close> has no argument: it is a function of the driver's state
  alone. What it prints is built from the results of \<open>get_sample\<close> and \<open>get_status\<close> on
  the progress of \<open>options.session\<close> at the time of the call, so two calls in states
  whose snapshot reads (\<open>get_sample\<close>, \<open>get_tile\<close>, \<open>get_status\<close>) agree print the same.
  It is the callback that \<open>session_init\<close> registers in background mode unless quiet.
\<close>

theorem status_is_pulled:
  "(opt_session (options d) = Some s \<longrightarrow>
      stopped (session_print_status d) = None \<and>
      new_events d (session_print_status d) =
        printed (status_line (get_sample (progress s)) (get_status (progress s))) (maxlen d)) \<and>
   (opt_session (options d1) = Some s1 \<and> opt_session (options d2) = Some s2 \<and>
    get_sample (progress s1) = get_sample (progress s2) \<and>
    get_tile (progress s1) = get_tile (progress s2) \<and>
    get_status (progress s1) = get_status (progress s2) \<and> maxlen d1 = maxlen d2 \<longrightarrow>
      new_events d1 (session_print_status d1) = new_events d2 (session_print_status d2)) \<and>
   (background (session_params (options d0)) \<and> \<not> quiet (options d0) \<longrightarrow>
      SetUpdateCallback session_print_status_cb \<in> set (new_events d0 (session_init E d0)) \<and>
      map_option (\<lambda>s. update_cb (progress s)) (opt_session (options (final_state (session_init E d0))))
        = Some (Some session_print_status_cb))"
proof (intro conjI impI)
  {
    assume a: "opt_session (options d) = Some s"
    then show "stopped (session_print_status d) = None"
      by (rule session_print_status_out(1))
    from a show "new_events d (session_print_status d) =
        printed (status_line (get_sample (progress s)) (get_status (progress s))) (maxlen d)"
      by (rule session_print_status_out(2))
  }
  {
    assume a: "opt_session (options d1) = Some s1 \<and> opt_session (options d2) = Some s2 \<and>
      get_sample (progress s1) = get_sample (progress s2) \<and>
      get_tile (progress s1) = get_tile (progress s2) \<and>
      get_status (progress s1) = get_status (progress s2) \<and> maxlen d1 = maxlen d2"
    then show "new_events d1 (session_print_status d1) = new_events d2 (session_print_status d2)"
      using session_print_status_out(2) [of d1 s1] session_print_status_out(2) [of d2 s2] by simp
  }
  {
    assume a: "background (session_params (options d0)) \<and> \<not> quiet (options d0)"
    then have r: "registered_callback E d0 = Some session_print_status_cb"
      by (simp add: registered_callback_def)
    then show "SetUpdateCallback session_print_status_cb \<in> set (new_events d0 (session_init E d0))"
      by (simp add: session_init_eq trace_started)
    from r show "map_option (\<lambda>s. update_cb (progress s))
                   (opt_session (options (final_state (session_init E d0))))
                 = Some (Some session_print_status_cb)"
      by (simp add: session_init_eq registered_callback_active)
  }
qed

text \<open>Sample 3 of a render with status "Path Tracing" and substatus "Tile 1/4".\<close>

theorem status_is_pulled_witness:
  "opt_session (options rendering_driver) \<noteq> None \<and>
   new_events rendering_driver (session_print_status rendering_driver) =
     [Stdout (CHR 0x0D # ''Sample 3   Path Tracing: Tile 1/4''), Flush] \<and>
   new_events (rendering_driver\<lparr>heap := heap loaded_driver, trace := [PathInit]\<rparr>)
     (session_print_status (rendering_driver\<lparr>heap := heap loaded_driver, trace := [PathInit]\<rparr>)) =
     new_events rendering_driver (session_print_status rendering_driver) \<and>
   background (session_params (options loaded_driver)) \<and> \<not> quiet (options loaded_driver) \<and>
   SetUpdateCallback session_print_status_cb \<in> set (new_events loaded_driver (session_init example_env loaded_driver))"
proof -
  let ?s = "(Session_ctor example_env (session_params (options initial_driver)))\<lparr>progress := example_progress\<rparr>"
  let ?d2 = "rendering_driver\<lparr>heap := heap loaded_driver, trace := [PathInit]\<rparr>"
  have s1: "opt_session (options rendering_driver) = Some ?s"
    and s2: "opt_session (options ?d2) = Some ?s"
    and m: "maxlen rendering_driver = 0" "maxlen ?d2 = maxlen rendering_driver"
    by (simp_all add: rendering_driver_def initial_driver_def)
  have l: "status_line (get_sample (progress ?s)) (get_status (progress ?s))
             = ''Sample 3   Path Tracing: Tile 1/4''"
    by (simp add: status_line_def get_sample_def get_status_def example_progress_def
          string_of_int_def digit_char_def)
  have b: "background (session_params (options loaded_driver)) \<and> \<not> quiet (options loaded_driver)"
    by (simp add: example_loaded)
  from status_is_pulled [of rendering_driver ?s ?d2 ?s rendering_driver ?s loaded_driver example_env]
    s1 s2 m l b
  show ?thesis
    by (simp add: printed_def)
qed

end
